theory Spec2Isabelle
  imports Complex_Main "HOL-Library.Multiset"
begin

section \<open>Python values and primitives used by the backend\<close>

text \<open>
  The scoring code of \<open>backend/server.py\<close> (\<open>submit_quiz\<close>) and the compatibility
  endpoints (\<open>get_compatibility_pair\<close>, \<open>get_compatibility_for_archetype\<close>) are
  embedded as HOL functions. Every exception the Python can raise in the modelled lines
  is a value of \<open>error\<close>; a function that can raise returns \<open>error + 'a\<close>.
\<close>

datatype error =
    HTTPException nat string
  | KeyError string
  | IndexError
  | ValueError
  | ZeroDivisionError
  | OverflowError

definition bind_err :: "error + 'a \<Rightarrow> ('a \<Rightarrow> error + 'b) \<Rightarrow> error + 'b" where
  "bind_err m f = (case m of Inl e \<Rightarrow> Inl e | Inr x \<Rightarrow> f x)"

subsection \<open>Strings\<close>

text \<open>
  \<open>str.lower()\<close>: the letters \<open>A\<close> to \<open>Z\<close> are mapped to \<open>a\<close> to \<open>z\<close>, every other
  character is kept. Case mappings of characters outside ASCII are not modelled. The
  general results below are stated in terms of \<open>lower s\<close> and their proofs do not
  unfold \<open>lower\<close>; only the evaluations at concrete ASCII inputs do.
\<close>

definition char_lower :: "char \<Rightarrow> char" where
  "char_lower c =
     (let n = (of_char c :: nat) in if 65 \<le> n \<and> n \<le> 90 then char_of (n + 32) else c)"

definition lower :: "string \<Rightarrow> string" where
  "lower s = map char_lower s"

subsection \<open>Lists and dictionaries\<close>

text \<open>
  A Python \<open>dict\<close> keeps its keys in insertion order, and assigning to an existing key
  keeps the key's position: a dictionary is an association list.
\<close>

definition py_index :: "'a list \<Rightarrow> nat \<Rightarrow> error + 'a" where
  "py_index xs i = (if i < length xs then Inr (xs ! i) else Inl IndexError)"

definition py_getitem :: "(string \<times> 'v) list \<Rightarrow> string \<Rightarrow> error + 'v" where
  "py_getitem d k = (case map_of d k of None \<Rightarrow> Inl (KeyError k) | Some v \<Rightarrow> Inr v)"

definition dict_contains :: "string \<Rightarrow> (string \<times> 'v) list \<Rightarrow> bool" where
  "dict_contains k d = (k \<in> set (map fst d))"

text \<open>\<open>d[k] += 1\<close> for a key that is present.\<close>

definition dict_incr :: "string \<Rightarrow> (string \<times> int) list \<Rightarrow> (string \<times> int) list" where
  "dict_incr k d = map (\<lambda>(k', v). if k' = k then (k', v + 1) else (k', v)) d"

definition py_max :: "int list \<Rightarrow> error + int" where
  "py_max xs = (case xs of [] \<Rightarrow> Inl ValueError | y # ys \<Rightarrow> Inr (fold max ys y))"

definition py_min :: "int list \<Rightarrow> error + int" where
  "py_min xs = (case xs of [] \<Rightarrow> Inl ValueError | y # ys \<Rightarrow> Inr (fold min ys y))"

text \<open>
  \<open>sorted(xs, key=f, reverse=True)\<close> and \<open>xs.sort(key=f, reverse=True)\<close>: Python's sort
  is stable, also with \<open>reverse=True\<close>, so elements with equal keys keep their
  original relative order. \<open>sort_key\<close> is the stable insertion sort of the library.
\<close>

definition py_sorted_reverse :: "('a \<Rightarrow> int) \<Rightarrow> 'a list \<Rightarrow> 'a list" where
  "py_sorted_reverse f xs = sort_key (\<lambda>x. - f x) xs"

subsection \<open>Floats\<close>

text \<open>
  A finite binary64 float is represented by its exact value, a rational.
  \<open>nearest_double p q\<close> is the float nearest to \<open>p / q\<close> (ties to even mantissa) with
  the exponent unbounded above; values below \<open>2 ^ -1022\<close> are rounded on the subnormal
  grid \<open>2 ^ -1074\<close>. A result of magnitude \<open>2 ^ 1024\<close> or more does not fit a float.
\<close>

type_synonym double = rat

fun bit_length :: "nat \<Rightarrow> nat" where
  "bit_length n = (if n = 0 then 0 else Suc (bit_length (n div 2)))"

declare bit_length.simps [simp del]

definition pow2 :: "int \<Rightarrow> rat" where
  "pow2 e = (if 0 \<le> e then 2 ^ nat e else 1 / 2 ^ nat (- e))"

definition round_half_even :: "rat \<Rightarrow> int" where
  "round_half_even x =
     (let f = \<lfloor>x\<rfloor>; d = x - of_int f
      in if d < 1 / 2 then f else if 1 / 2 < d then f + 1 else if even f then f else f + 1)"

text \<open>\<open>floor_log2 p q\<close> is the integer \<open>e\<close> with \<open>2 ^ e \<le> p / q < 2 ^ (e + 1)\<close>, for positive \<open>p\<close>, \<open>q\<close>.\<close>

definition floor_log2 :: "int \<Rightarrow> int \<Rightarrow> int" where
  "floor_log2 p q =
     (let d = int (bit_length (nat p)) - int (bit_length (nat q))
      in if pow2 d \<le> of_int p / of_int q then d else d - 1)"

definition nearest_double :: "int \<Rightarrow> int \<Rightarrow> rat" where
  "nearest_double p q =
     (let x = of_int p / of_int q
      in if x = 0 then 0
         else let e = max (floor_log2 \<bar>p\<bar> \<bar>q\<bar>) (- 1022);
                  ulp = pow2 (e - 52)
              in sgn x * of_int (round_half_even (\<bar>x\<bar> / ulp)) * ulp)"

definition to_double :: "int \<Rightarrow> int \<Rightarrow> error + double" where
  "to_double p q =
     (let r = nearest_double p q in if 2 ^ 1024 \<le> \<bar>r\<bar> then Inl OverflowError else Inr r)"

text \<open>\<open>a / b\<close> on Python ints: true division, correctly rounded.\<close>

definition py_truediv :: "int \<Rightarrow> int \<Rightarrow> error + double" where
  "py_truediv a b = (if b = 0 then Inl ZeroDivisionError else to_double a b)"

text \<open>
  \<open>round(x, 2)\<close> on a float: the exact value of \<open>x\<close> is rounded to two decimals, ties
  to even, and the decimal is converted back to the nearest float.
\<close>

definition py_round2 :: "double \<Rightarrow> error + double" where
  "py_round2 x = to_double (round_half_even (x * 100)) 100"

section \<open>Scoring: \<open>submit_quiz\<close>\<close>

record QuizAnswer =
  question_id :: string
  selected_option :: string
  answer_value :: "int option"

text \<open>
  A document of \<open>db.questions\<close>, with the one field the scoring reads;
  \<open>stress_marker_flag = None\<close> is a document without that key.
  \<open>db.questions.find_one({"question_id": q})\<close> is a lookup that may find nothing.
\<close>

record question =
  stress_marker_flag :: "bool option"

type_synonym questions = "string \<Rightarrow> question option"

text \<open>The fields of the response that scoring computes (\<open>result_id\<close> is a fresh uuid).\<close>

record quiz_result =
  primary_archetype :: string
  secondary_archetype :: string
  scores :: "(string \<times> int) list"
  balance_index :: double
  stress_flag :: bool

definition initial_scores :: "(string \<times> int) list" where
  "initial_scores = [(''driver'', 0), (''spark'', 0), (''anchor'', 0), (''analyst'', 0)]"

text \<open>\<open>question and question.get("stress_marker_flag")\<close> as a truth value.\<close>

definition stress_marked :: "question option \<Rightarrow> bool" where
  "stress_marked q = (case q of None \<Rightarrow> False | Some d \<Rightarrow> stress_marker_flag d = Some True)"

text \<open>One iteration of the loop over \<open>data.answers\<close>, on the pair \<open>(scores, stress_markers)\<close>.\<close>

definition score_step ::
  "questions \<Rightarrow> QuizAnswer \<Rightarrow> (string \<times> int) list \<times> int \<Rightarrow> (string \<times> int) list \<times> int" where
  "score_step db answer st =
     (let archetype = lower (selected_option answer);
          scores1 = (if dict_contains archetype (fst st) then dict_incr archetype (fst st)
                     else fst st);
          question = db (question_id answer);
          stress1 = (if stress_marked question \<and> archetype = ''driver'' then snd st + 1
                     else snd st)
      in (scores1, stress1))"

fun score_loop ::
  "questions \<Rightarrow> QuizAnswer list \<Rightarrow> (string \<times> int) list \<times> int \<Rightarrow> (string \<times> int) list \<times> int" where
  "score_loop db [] st = st"
| "score_loop db (answer # answers) st = score_loop db answers (score_step db answer st)"

definition score :: "QuizAnswer list \<Rightarrow> questions \<Rightarrow> error + quiz_result" where
  "score answers db =
     (let st = score_loop db answers (initial_scores, 0);
          scores1 = fst st;
          stress_markers = snd st;
          sorted_scores = py_sorted_reverse snd scores1
      in bind_err (py_index sorted_scores 0) (\<lambda>first.
         bind_err (py_index sorted_scores 1) (\<lambda>second.
         bind_err (py_max (map snd scores1)) (\<lambda>max_score.
         bind_err (py_min (map snd scores1)) (\<lambda>min_score.
         let total_questions = (if length answers = 0 then 1 else int (length answers))
         in bind_err (py_truediv (max_score - min_score) total_questions) (\<lambda>quotient.
            bind_err (py_round2 quotient) (\<lambda>balance.
            Inr \<lparr>primary_archetype = fst first,
                 secondary_archetype = fst second,
                 scores = scores1,
                 balance_index = balance,
                 stress_flag = (3 \<le> stress_markers)\<rparr>)))))))"

text \<open>
  \<open>submit_quiz\<close> scores after it has found the attempt; without one it answers 404.
\<close>

definition submit_quiz :: "bool \<Rightarrow> QuizAnswer list \<Rightarrow> questions \<Rightarrow> error + quiz_result" where
  "submit_quiz attempt_found answers db =
     (if \<not> attempt_found then Inl (HTTPException 404 ''Quiz attempt not found'')
      else score answers db)"

section \<open>Compatibility: \<open>COMPATIBILITY_MATRIX\<close> and its endpoints\<close>

text \<open>
  The values held by the dictionaries of the compatibility code. The narrative literals
  of the matrix (titles, summaries, lists of strengths, challenges and tips) are not
  copied: \<open>PyText k f\<close> stands for the literal stored at \<open>COMPATIBILITY_MATRIX[k][f]\<close>.
\<close>

datatype pyval = PyInt int | PyStr string | PyText string string

type_synonym pydict = "(string \<times> pyval) list"

definition narrative_fields :: "string list" where
  "narrative_fields =
     [''title_id'', ''title_en'', ''summary_id'', ''summary_en'',
      ''strengths_id'', ''strengths_en'', ''challenges_id'', ''challenges_en'',
      ''tips_id'', ''tips_en'']"

text \<open>Every record of the matrix has the same twelve keys, in this order.\<close>

definition entry :: "string \<Rightarrow> int \<Rightarrow> string \<Rightarrow> pydict" where
  "entry k s e =
     (''compatibility_score'', PyInt s) # (''energy'', PyStr e) # map (\<lambda>f. (f, PyText k f)) narrative_fields"

definition COMPATIBILITY_MATRIX :: "(string \<times> pydict) list" where
  "COMPATIBILITY_MATRIX =
     [(''driver_driver'', entry ''driver_driver'' 65 ''high''),
      (''driver_spark'', entry ''driver_spark'' 85 ''very_high''),
      (''driver_anchor'', entry ''driver_anchor'' 75 ''balanced''),
      (''driver_analyst'', entry ''driver_analyst'' 70 ''focused''),
      (''spark_spark'', entry ''spark_spark'' 75 ''explosive''),
      (''spark_anchor'', entry ''spark_anchor'' 90 ''harmonious''),
      (''spark_analyst'', entry ''spark_analyst'' 60 ''contrasting''),
      (''anchor_anchor'', entry ''anchor_anchor'' 80 ''peaceful''),
      (''anchor_analyst'', entry ''anchor_analyst'' 70 ''thoughtful''),
      (''analyst_analyst'', entry ''analyst_analyst'' 75 ''intellectual''),
      (''spark_driver'', entry ''spark_driver'' 85 ''very_high''),
      (''anchor_driver'', entry ''anchor_driver'' 75 ''balanced''),
      (''analyst_driver'', entry ''analyst_driver'' 70 ''focused''),
      (''anchor_spark'', entry ''anchor_spark'' 90 ''harmonious''),
      (''analyst_spark'', entry ''analyst_spark'' 60 ''contrasting''),
      (''analyst_anchor'', entry ''analyst_anchor'' 70 ''thoughtful'')]"

definition archetypes :: "string list" where
  "archetypes = [''driver'', ''spark'', ''anchor'', ''analyst'']"

text \<open>
  \<open>get_compatibility_pair\<close>: the key in the caller's order, then the reversed key,
  then 404; the fields of the record are read with \<open>data[...]\<close>, which raises
  \<open>KeyError\<close> for a language the record has no fields for.
\<close>

definition get_compatibility_pair :: "string \<Rightarrow> string \<Rightarrow> string \<Rightarrow> error + pydict" where
  "get_compatibility_pair arch1_in arch2_in language =
     (let arch1 = lower arch1_in;
          arch2 = lower arch2_in;
          key = arch1 @ ''_'' @ arch2;
          found =
            (if \<not> dict_contains key COMPATIBILITY_MATRIX
             then (let key2 = arch2 @ ''_'' @ arch1
                   in if \<not> dict_contains key2 COMPATIBILITY_MATRIX
                      then Inl (HTTPException 404 ''Compatibility pair not found'')
                      else Inr key2)
             else Inr key)
      in bind_err found (\<lambda>key.
         bind_err (py_getitem COMPATIBILITY_MATRIX key) (\<lambda>data.
         bind_err (py_getitem data ''compatibility_score'') (\<lambda>score_v.
         bind_err (py_getitem data ''energy'') (\<lambda>energy_v.
         bind_err (py_getitem data (''title_'' @ language)) (\<lambda>title_v.
         bind_err (py_getitem data (''summary_'' @ language)) (\<lambda>summary_v.
         bind_err (py_getitem data (''strengths_'' @ language)) (\<lambda>strengths_v.
         bind_err (py_getitem data (''challenges_'' @ language)) (\<lambda>challenges_v.
         bind_err (py_getitem data (''tips_'' @ language)) (\<lambda>tips_v.
         Inr [(''pair'', PyStr (arch1 @ ''_'' @ arch2)),
              (''archetype1'', PyStr arch1),
              (''archetype2'', PyStr arch2),
              (''compatibility_score'', score_v),
              (''energy'', energy_v),
              (''title'', title_v),
              (''summary'', summary_v),
              (''strengths'', strengths_v),
              (''challenges'', challenges_v),
              (''tips'', tips_v)]))))))))))"

text \<open>
  \<open>get_compatibility_for_archetype\<close>: the loop over \<open>archetypes\<close> appends one entry
  for each key it finds, then the list is sorted by score, highest first.
\<close>

record for_archetype_result =
  archetype :: string
  compatibilities :: "pydict list"

definition for_archetype_step ::
  "string \<Rightarrow> string \<Rightarrow> string \<Rightarrow> pydict list \<Rightarrow> error + pydict list" where
  "for_archetype_step archetype1 language other_arch acc =
     (let key = archetype1 @ ''_'' @ other_arch;
          key1 = (if \<not> dict_contains key COMPATIBILITY_MATRIX
                  then other_arch @ ''_'' @ archetype1 else key)
      in if dict_contains key1 COMPATIBILITY_MATRIX
         then bind_err (py_getitem COMPATIBILITY_MATRIX key1) (\<lambda>data.
              bind_err (py_getitem data ''compatibility_score'') (\<lambda>score_v.
              bind_err (py_getitem data ''energy'') (\<lambda>energy_v.
              bind_err (py_getitem data (''title_'' @ language)) (\<lambda>title_v.
              bind_err (py_getitem data (''summary_'' @ language)) (\<lambda>summary_v.
              Inr (acc @ [[(''with_archetype'', PyStr other_arch),
                           (''compatibility_score'', score_v),
                           (''energy'', energy_v),
                           (''title'', title_v),
                           (''summary'', summary_v)]]))))))
         else Inr acc)"

fun for_archetype_loop ::
  "string \<Rightarrow> string \<Rightarrow> string list \<Rightarrow> pydict list \<Rightarrow> error + pydict list" where
  "for_archetype_loop archetype1 language [] acc = Inr acc"
| "for_archetype_loop archetype1 language (other_arch # rest) acc =
     bind_err (for_archetype_step archetype1 language other_arch acc)
       (for_archetype_loop archetype1 language rest)"

text \<open>The sort key \<open>lambda x: x["compatibility_score"]\<close>; every entry built by the loop has that key.\<close>

definition compatibility_score_of :: "pydict \<Rightarrow> int" where
  "compatibility_score_of x = (case map_of x ''compatibility_score'' of Some (PyInt n) \<Rightarrow> n | _ \<Rightarrow> 0)"

definition get_compatibility_for_archetype :: "string \<Rightarrow> string \<Rightarrow> error + for_archetype_result" where
  "get_compatibility_for_archetype archetype_in language =
     (let archetype1 = lower archetype_in
      in if archetype1 \<notin> set archetypes then Inl (HTTPException 400 ''Invalid archetype'')
         else bind_err (for_archetype_loop archetype1 language archetypes []) (\<lambda>found.
              Inr \<lparr>archetype = archetype1,
                   compatibilities = py_sorted_reverse compatibility_score_of found\<rparr>))"

section \<open>Notions used in the statements\<close>

text \<open>An answer with no likert value, and a question bank that knows no question.\<close>

definition quiz_answer :: "string \<Rightarrow> string \<Rightarrow> QuizAnswer" where
  "quiz_answer q s = \<lparr>question_id = q, selected_option = s, answer_value = None\<rparr>"

definition no_questions :: questions where
  "no_questions = (\<lambda>q. None)"

text \<open>The number of answers whose lowercased \<open>selected_option\<close> is \<open>a\<close>.\<close>

definition count_for :: "string \<Rightarrow> QuizAnswer list \<Rightarrow> int" where
  "count_for a answers = int (length (filter (\<lambda>x. lower (selected_option x) = a) answers))"

definition final_scores :: "QuizAnswer list \<Rightarrow> (string \<times> int) list" where
  "final_scores answers = map (\<lambda>a. (a, count_for a answers)) archetypes"

definition max_count :: "QuizAnswer list \<Rightarrow> int" where
  "max_count answers = Max ((\<lambda>a. count_for a answers) ` set archetypes)"

definition min_count :: "QuizAnswer list \<Rightarrow> int" where
  "min_count answers = Min ((\<lambda>a. count_for a answers) ` set archetypes)"

text \<open>
  The answers that count towards the stress flag: the question is found, it is flagged
  as a stress marker, and the lowercased option is \<open>driver\<close>.
\<close>

definition stress_count :: "questions \<Rightarrow> QuizAnswer list \<Rightarrow> int" where
  "stress_count db answers =
     int (length (filter (\<lambda>x. stress_marked (db (question_id x)) \<and>
                              lower (selected_option x) = ''driver'') answers))"

text \<open>
  The fixed order \<open>driver, spark, anchor, analyst\<close>: \<open>ranks_before cnt a b\<close> says that
  \<open>a\<close> comes before \<open>b\<close> when the archetypes are ranked by count, highest first, with
  equal counts in the fixed order.
\<close>

definition archetype_position :: "string \<Rightarrow> nat" where
  "archetype_position a = length (takeWhile (\<lambda>x. x \<noteq> a) archetypes)"

definition ranks_before :: "(string \<Rightarrow> int) \<Rightarrow> string \<Rightarrow> string \<Rightarrow> bool" where
  "ranks_before cnt a b =
     (cnt b < cnt a \<or> (cnt a = cnt b \<and> archetype_position a < archetype_position b))"

text \<open>
  The balance index with the denominator of the specification: the number of answers
  that were scored, that is, whose lowercased option is one of the four archetypes.
\<close>

definition scored_answers :: "QuizAnswer list \<Rightarrow> QuizAnswer list" where
  "scored_answers answers = filter (\<lambda>x. lower (selected_option x) \<in> set archetypes) answers"

definition balance_index_over_scored :: "QuizAnswer list \<Rightarrow> error + double" where
  "balance_index_over_scored answers =
     bind_err (py_truediv (max_count answers - min_count answers)
                 (if length (scored_answers answers) = 0 then 1
                  else int (length (scored_answers answers))))
       py_round2"

text \<open>The languages the matrix has narrative fields for.\<close>

definition supported_languages :: "string list" where
  "supported_languages = [''id'', ''en'']"

text \<open>
  The error classes of the specification, as the HTTP status the endpoint raises:
  \<open>InvalidArgumentError\<close> is 400, \<open>NotFoundError\<close> is 404.
\<close>

definition is_invalid_argument :: "error + 'a \<Rightarrow> bool" where
  "is_invalid_argument r = (case r of Inl (HTTPException code msg) \<Rightarrow> code = 400 | _ \<Rightarrow> False)"

definition is_not_found :: "error + 'a \<Rightarrow> bool" where
  "is_not_found r = (case r of Inl (HTTPException code msg) \<Rightarrow> code = 404 | _ \<Rightarrow> False)"

text \<open>The response of the pair endpoint built from the record \<open>entry k s e\<close>.\<close>

definition pair_view :: "string \<Rightarrow> string \<Rightarrow> string \<Rightarrow> int \<Rightarrow> string \<Rightarrow> string \<Rightarrow> pydict" where
  "pair_view x y k s e l =
     [(''pair'', PyStr (x @ ''_'' @ y)),
      (''archetype1'', PyStr x),
      (''archetype2'', PyStr y),
      (''compatibility_score'', PyInt s),
      (''energy'', PyStr e),
      (''title'', PyText k (''title_'' @ l)),
      (''summary'', PyText k (''summary_'' @ l)),
      (''strengths'', PyText k (''strengths_'' @ l)),
      (''challenges'', PyText k (''challenges_'' @ l)),
      (''tips'', PyText k (''tips_'' @ l))]"

text \<open>
  An entry of the ranking endpoint built from the record \<open>entry k s e\<close>, the archetype
  an entry names, and the order of two entries: higher score first, equal scores in the
  fixed order of the archetypes.
\<close>

definition compat_item :: "string \<Rightarrow> string \<Rightarrow> int \<Rightarrow> string \<Rightarrow> string \<Rightarrow> pydict" where
  "compat_item o_arch k s e l =
     [(''with_archetype'', PyStr o_arch),
      (''compatibility_score'', PyInt s),
      (''energy'', PyStr e),
      (''title'', PyText k (''title_'' @ l)),
      (''summary'', PyText k (''summary_'' @ l))]"

definition with_archetype_of :: "pydict \<Rightarrow> string" where
  "with_archetype_of x = (case map_of x ''with_archetype'' of Some (PyStr a) \<Rightarrow> a | _ \<Rightarrow> [])"

definition entry_before :: "pydict \<Rightarrow> pydict \<Rightarrow> bool" where
  "entry_before x y =
     (compatibility_score_of y < compatibility_score_of x \<or>
      (compatibility_score_of x = compatibility_score_of y \<and>
       archetype_position (with_archetype_of x) < archetype_position (with_archetype_of y)))"

text \<open>
  An entry of the ranking agrees with the pair lookup: the lookup of the ranked
  archetype with the archetype the entry names succeeds, and the entry carries the
  name as a string and the lookup's compatibility score, an integer.
\<close>

definition agrees_with_lookup :: "string \<Rightarrow> string \<Rightarrow> pydict \<Rightarrow> bool" where
  "agrees_with_lookup a l c =
     (case get_compatibility_pair a (with_archetype_of c) l of
        Inl err \<Rightarrow> False
      | Inr v \<Rightarrow>
          py_getitem c ''with_archetype'' = Inr (PyStr (with_archetype_of c)) \<and>
          py_getitem c ''compatibility_score'' = py_getitem v ''compatibility_score'' \<and>
          py_getitem v ''compatibility_score'' = Inr (PyInt (compatibility_score_of c)))"

section \<open>Floats: the quotient and its rounding are defined\<close>

lemma bit_length_mono: "m \<le> n \<Longrightarrow> bit_length m \<le> bit_length n"
proof (induction n arbitrary: m rule: bit_length.induct)
  case (1 n)
  show ?case
  proof (cases "m = 0")
    case True
    then show ?thesis by (simp add: bit_length.simps)
  next
    case False
    with "1.prems" have n: "n \<noteq> 0" by simp
    have "m div 2 \<le> n div 2" using "1.prems" by (rule div_le_mono)
    then have "bit_length (m div 2) \<le> bit_length (n div 2)" using n by (rule "1.IH" [rotated])
    then show ?thesis using False n by (simp add: bit_length.simps [of m] bit_length.simps [of n])
  qed
qed

lemma bit_length_double: "0 < n \<Longrightarrow> bit_length (2 * n) = Suc (bit_length n)"
  by (simp add: bit_length.simps [of "2 * n"])

lemma pow2_pos: "0 < pow2 e"
  by (simp add: pow2_def)

lemma pow2_powi: "pow2 e = 2 powi e"
  by (simp add: pow2_def power_int_def field_simps)

lemma pow2_mono: "a \<le> b \<Longrightarrow> pow2 a \<le> pow2 b"
  unfolding pow2_powi by (rule power_int_increasing) simp_all

lemma round_half_even_le: "of_int (round_half_even y) \<le> y + 1 / 2"
  unfolding round_half_even_def Let_def by (auto; linarith)

lemma round_half_even_nonneg: "0 \<le> y \<Longrightarrow> 0 \<le> round_half_even y"
  unfolding round_half_even_def Let_def by (auto; linarith)

lemma floor_log2_le:
  assumes "0 < p" "0 < q" "p \<le> 2 * q"
  shows "floor_log2 p q \<le> 1"
proof -
  have "nat p \<le> 2 * nat q" using assms by simp
  then have "bit_length (nat p) \<le> bit_length (2 * nat q)" by (rule bit_length_mono)
  also have "\<dots> = Suc (bit_length (nat q))" using assms by (simp add: bit_length_double)
  finally show ?thesis by (simp add: floor_log2_def Let_def)
qed

lemma nearest_double_bounds:
  assumes "0 \<le> p" "0 < q" "p \<le> 2 * q"
  shows "0 \<le> nearest_double p q \<and> nearest_double p q \<le> of_int p / of_int q + 1 / 2"
proof (cases "p = 0")
  case True
  then show ?thesis by (simp add: nearest_double_def)
next
  case False
  with assms have p: "0 < p" by simp
  define x :: rat where "x = of_int p / of_int q"
  define e where "e = max (floor_log2 p q) (- 1022)"
  define ulp where "ulp = pow2 (e - 52)"
  have x: "0 < x" using p assms by (simp add: x_def)
  have nd: "nearest_double p q = of_int (round_half_even (x / ulp)) * ulp"
    using p assms x by (simp add: nearest_double_def Let_def x_def e_def ulp_def)
  have "e \<le> 1" using floor_log2_le [OF p assms(2,3)] by (simp add: e_def)
  then have "ulp \<le> pow2 1" unfolding ulp_def by (intro pow2_mono) simp
  then have ulp1: "ulp \<le> 1" using pow2_mono [of "e - 52" 0] \<open>e \<le> 1\<close> by (simp add: pow2_def ulp_def)
  have ulp0: "0 < ulp" by (simp add: ulp_def pow2_pos)
  have "of_int (round_half_even (x / ulp)) * ulp \<le> (x / ulp + 1 / 2) * ulp"
    using round_half_even_le [of "x / ulp"] ulp0 by (simp add: mult_right_mono)
  also have "\<dots> = x + ulp / 2" using ulp0 by (simp add: field_simps)
  also have "\<dots> \<le> x + 1 / 2" using ulp1 by simp
  finally have up: "nearest_double p q \<le> of_int p / of_int q + 1 / 2" by (simp add: nd x_def)
  have "0 \<le> round_half_even (x / ulp)" using x ulp0 by (intro round_half_even_nonneg) simp
  then have "0 \<le> nearest_double p q" using ulp0 by (simp add: nd)
  with up show ?thesis by simp
qed

lemma to_double_ok:
  assumes "0 \<le> p" "0 < q" "p \<le> 2 * q"
  shows "to_double p q = Inr (nearest_double p q)"
proof -
  have "(of_int p :: rat) \<le> of_int (2 * q)" using assms(3) by (simp only: of_int_le_iff)
  then have "(of_int p :: rat) / of_int q \<le> 2" using assms(2) by (simp add: field_simps)
  then have "\<bar>nearest_double p q\<bar> \<le> 5 / 2" using nearest_double_bounds [OF assms] by simp
  also have "(5 / 2 :: rat) < 2 ^ 1024" by simp
  finally show ?thesis by (simp add: to_double_def Let_def)
qed

lemma balance_defined:
  assumes "0 \<le> a" "a \<le> b" "0 < b"
  shows "\<exists>q r. py_truediv a b = Inr q \<and> py_round2 q = Inr r"
proof -
  have a2: "a \<le> 2 * b" using assms by simp
  have q: "py_truediv a b = Inr (nearest_double a b)"
    using assms to_double_ok [OF assms(1) assms(3) a2] by (simp add: py_truediv_def)
  have "(of_int a :: rat) \<le> of_int b" using assms(2) by (simp only: of_int_le_iff)
  then have "(of_int a :: rat) / of_int b \<le> 1" using assms(3) by (simp add: field_simps)
  then have b: "0 \<le> nearest_double a b" "nearest_double a b \<le> 3 / 2"
    using nearest_double_bounds [OF assms(1) assms(3) a2] by simp_all
  have n0: "0 \<le> round_half_even (nearest_double a b * 100)"
    using b by (intro round_half_even_nonneg) simp
  have "of_int (round_half_even (nearest_double a b * 100)) \<le> nearest_double a b * 100 + 1 / 2"
    by (rule round_half_even_le)
  also have "\<dots> \<le> 151" using b by simp
  finally have "round_half_even (nearest_double a b * 100) \<le> 151" by linarith
  then have n1: "round_half_even (nearest_double a b * 100) \<le> 2 * 100" by simp
  show ?thesis using q to_double_ok [OF n0 _ n1] by (simp add: py_round2_def)
qed

section \<open>The scoring loop counts the answers\<close>

lemma submit_quiz_found: "submit_quiz True answers db = score answers db"
  by (simp add: submit_quiz_def)

lemma score_step_counts:
  "score_step db x ([(''driver'', a), (''spark'', b), (''anchor'', c), (''analyst'', d)], s) =
     ([(''driver'', a + count_for ''driver'' [x]), (''spark'', b + count_for ''spark'' [x]),
       (''anchor'', c + count_for ''anchor'' [x]), (''analyst'', d + count_for ''analyst'' [x])],
      s + stress_count db [x])"
  by (auto simp add: score_step_def dict_contains_def dict_incr_def count_for_def stress_count_def Let_def)

lemma score_loop_counts:
  "score_loop db xs ([(''driver'', a), (''spark'', b), (''anchor'', c), (''analyst'', d)], s) =
     ([(''driver'', a + count_for ''driver'' xs), (''spark'', b + count_for ''spark'' xs),
       (''anchor'', c + count_for ''anchor'' xs), (''analyst'', d + count_for ''analyst'' xs)],
      s + stress_count db xs)"
proof (induction xs arbitrary: a b c d s)
  case Nil
  show ?case by (simp add: count_for_def stress_count_def)
next
  case (Cons x xs)
  have "score_loop db (x # xs) ([(''driver'', a), (''spark'', b), (''anchor'', c), (''analyst'', d)], s)
        = score_loop db xs (score_step db x ([(''driver'', a), (''spark'', b), (''anchor'', c), (''analyst'', d)], s))"
    by simp
  also have "\<dots> = ([(''driver'', a + count_for ''driver'' [x] + count_for ''driver'' xs),
       (''spark'', b + count_for ''spark'' [x] + count_for ''spark'' xs),
       (''anchor'', c + count_for ''anchor'' [x] + count_for ''anchor'' xs),
       (''analyst'', d + count_for ''analyst'' [x] + count_for ''analyst'' xs)],
      s + stress_count db [x] + stress_count db xs)"
    unfolding score_step_counts by (rule Cons.IH)
  also have "\<dots> = ([(''driver'', a + count_for ''driver'' (x # xs)), (''spark'', b + count_for ''spark'' (x # xs)),
       (''anchor'', c + count_for ''anchor'' (x # xs)), (''analyst'', d + count_for ''analyst'' (x # xs))],
      s + stress_count db (x # xs))"
    by (simp add: count_for_def stress_count_def)
  finally show ?case .
qed

lemma score_loop_initial:
  "score_loop db xs (initial_scores, 0) = (final_scores xs, stress_count db xs)"
  using score_loop_counts [of db xs 0 0 0 0 0]
  by (simp add: initial_scores_def final_scores_def archetypes_def)

lemma count_for_bounds: "0 \<le> count_for a xs" "count_for a xs \<le> int (length xs)"
  by (simp_all add: count_for_def)

lemma count_for_Nil: "count_for a [] = 0"
  by (simp add: count_for_def)

lemma max_count_eq:
  "max_count xs = max (max (max (count_for ''driver'' xs) (count_for ''spark'' xs))
                     (count_for ''anchor'' xs)) (count_for ''analyst'' xs)"
  by (simp add: max_count_def archetypes_def max.commute max.left_commute max.assoc)

lemma min_count_eq:
  "min_count xs = min (min (min (count_for ''driver'' xs) (count_for ''spark'' xs))
                     (count_for ''anchor'' xs)) (count_for ''analyst'' xs)"
  by (simp add: min_count_def archetypes_def min.commute min.left_commute min.assoc)

lemma py_max_final: "py_max (map snd (final_scores xs)) = Inr (max_count xs)"
  by (simp add: py_max_def final_scores_def archetypes_def max_count_eq)

lemma py_min_final: "py_min (map snd (final_scores xs)) = Inr (min_count xs)"
  by (simp add: py_min_def final_scores_def archetypes_def min_count_eq)

lemma spread_bounds:
  "0 \<le> max_count xs - min_count xs"
  "max_count xs - min_count xs \<le> (if length xs = 0 then 1 else int (length xs))"
  using count_for_bounds [of "''driver''" xs] count_for_bounds [of "''spark''" xs]
    count_for_bounds [of "''anchor''" xs] count_for_bounds [of "''analyst''" xs]
  by (auto simp add: max_count_eq min_count_eq)

lemma length_sorted_final: "length (py_sorted_reverse snd (final_scores xs)) = 4"
  by (simp add: py_sorted_reverse_def final_scores_def archetypes_def)

lemma score_result:
  "\<exists>bal. score xs db =
       Inr \<lparr>primary_archetype = fst (py_sorted_reverse snd (final_scores xs) ! 0),
            secondary_archetype = fst (py_sorted_reverse snd (final_scores xs) ! 1),
            scores = final_scores xs,
            balance_index = bal,
            stress_flag = (3 \<le> stress_count db xs)\<rparr> \<and>
     bind_err (py_truediv (max_count xs - min_count xs)
                 (if length xs = 0 then 1 else int (length xs))) py_round2 = Inr bal"
proof -
  have pos: "0 < (if length xs = 0 then 1 else int (length xs))" by simp
  obtain q bal where q: "py_truediv (max_count xs - min_count xs)
        (if length xs = 0 then 1 else int (length xs)) = Inr q" and bal: "py_round2 q = Inr bal"
    using balance_defined [OF spread_bounds pos] by blast
  have "score xs db =
       Inr \<lparr>primary_archetype = fst (py_sorted_reverse snd (final_scores xs) ! 0),
            secondary_archetype = fst (py_sorted_reverse snd (final_scores xs) ! 1),
            scores = final_scores xs,
            balance_index = bal,
            stress_flag = (3 \<le> stress_count db xs)\<rparr>"
    unfolding score_def score_loop_initial Let_def fst_conv snd_conv
    using q bal
    by (simp add: py_index_def length_sorted_final py_max_final py_min_final bind_err_def)
  moreover have "bind_err (py_truediv (max_count xs - min_count xs)
                 (if length xs = 0 then 1 else int (length xs))) py_round2 = Inr bal"
    by (simp only: q bal bind_err_def sum.case)
  ultimately show ?thesis by blast
qed

section \<open>Ranking four counts\<close>

lemma ranking4_gen:
  fixes c :: "'a \<Rightarrow> int" and pos :: "'a \<Rightarrow> nat"
  assumes d: "k1 \<noteq> k2" "k1 \<noteq> k3" "k1 \<noteq> k4" "k2 \<noteq> k3" "k2 \<noteq> k4" "k3 \<noteq> k4"
    and p: "pos k1 < pos k2" "pos k2 < pos k3" "pos k3 < pos k4"
  defines "ys \<equiv> py_sorted_reverse snd [(k1, c k1), (k2, c k2), (k3, c k3), (k4, c k4)]"
  shows "fst (ys ! 0) \<in> {k1, k2, k3, k4}"
    and "fst (ys ! 1) \<in> {k1, k2, k3, k4}"
    and "fst (ys ! 0) \<noteq> fst (ys ! 1)"
    and "\<forall>b\<in>{k1, k2, k3, k4}. b \<noteq> fst (ys ! 0) \<longrightarrow>
           (c b < c (fst (ys ! 0)) \<or> (c (fst (ys ! 0)) = c b \<and> pos (fst (ys ! 0)) < pos b))"
    and "\<forall>b\<in>{k1, k2, k3, k4}. b \<noteq> fst (ys ! 0) \<longrightarrow> b \<noteq> fst (ys ! 1) \<longrightarrow>
           (c b < c (fst (ys ! 1)) \<or> (c (fst (ys ! 1)) = c b \<and> pos (fst (ys ! 1)) < pos b))"
  using d p unfolding ys_def py_sorted_reverse_def
  by auto

lemma archetype_positions:
  "archetype_position ''driver'' = 0" "archetype_position ''spark'' = 1"
  "archetype_position ''anchor'' = 2" "archetype_position ''analyst'' = 3"
  by (simp_all add: archetype_position_def archetypes_def)

lemma ranking4:
  fixes c :: "string \<Rightarrow> int"
  defines "ys \<equiv> py_sorted_reverse snd (map (\<lambda>a. (a, c a)) archetypes)"
  shows "fst (ys ! 0) \<in> set archetypes"
    and "fst (ys ! 1) \<in> set archetypes"
    and "fst (ys ! 0) \<noteq> fst (ys ! 1)"
    and "\<forall>b\<in>set archetypes. b \<noteq> fst (ys ! 0) \<longrightarrow> ranks_before c (fst (ys ! 0)) b"
    and "\<forall>b\<in>set archetypes. b \<noteq> fst (ys ! 0) \<longrightarrow> b \<noteq> fst (ys ! 1) \<longrightarrow>
           ranks_before c (fst (ys ! 1)) b"
proof -
  have ys: "ys = py_sorted_reverse snd [(''driver'', c ''driver''), (''spark'', c ''spark''),
       (''anchor'', c ''anchor''), (''analyst'', c ''analyst'')]"
    by (simp add: ys_def archetypes_def)
  have s: "set archetypes = {''driver'', ''spark'', ''anchor'', ''analyst''}"
    by (simp add: archetypes_def)
  note g = ranking4_gen [of "''driver''" "''spark''" "''anchor''" "''analyst''" archetype_position c,
      folded ys, unfolded archetype_positions, folded s]
  show "fst (ys ! 0) \<in> set archetypes" by (rule g(1)) simp_all
  show "fst (ys ! 1) \<in> set archetypes" by (rule g(2)) simp_all
  show "fst (ys ! 0) \<noteq> fst (ys ! 1)" by (rule g(3)) simp_all
  show "\<forall>b\<in>set archetypes. b \<noteq> fst (ys ! 0) \<longrightarrow> ranks_before c (fst (ys ! 0)) b"
    unfolding ranks_before_def by (rule g(4)) simp_all
  show "\<forall>b\<in>set archetypes. b \<noteq> fst (ys ! 0) \<longrightarrow> b \<noteq> fst (ys ! 1) \<longrightarrow>
           ranks_before c (fst (ys ! 1)) b"
    unfolding ranks_before_def by (rule g(5)) simp_all
qed

section \<open>Claims about scoring\<close>

lemma final_scores_Nil:
  "final_scores [] = [(''driver'', 0), (''spark'', 0), (''anchor'', 0), (''analyst'', 0)]"
  by (simp add: final_scores_def archetypes_def count_for_def)

lemma nearest_double_zero: "nearest_double 0 q = 0"
  by (simp add: nearest_double_def)

lemma balance_zero: "bind_err (py_truediv 0 1) py_round2 = Inr 0"
  by (simp add: bind_err_def py_truediv_def py_round2_def to_double_def nearest_double_zero
      round_half_even_def)

text \<open>
  C7. Scoring the empty sequence of answers does not fail: every count is 0, the balance
  index is 0, the stress flag is false, the primary archetype is driver and the
  secondary is spark, whatever the question bank holds.
\<close>

theorem C7_empty_answers:
  "score [] db =
     Inr \<lparr>primary_archetype = ''driver'', secondary_archetype = ''spark'',
          scores = [(''driver'', 0), (''spark'', 0), (''anchor'', 0), (''analyst'', 0)],
          balance_index = 0, stress_flag = False\<rparr>"
proof -
  obtain bal where r: "score [] db =
       Inr \<lparr>primary_archetype = fst (py_sorted_reverse snd (final_scores []) ! 0),
            secondary_archetype = fst (py_sorted_reverse snd (final_scores []) ! 1),
            scores = final_scores [],
            balance_index = bal,
            stress_flag = (3 \<le> stress_count db [])\<rparr>"
    and b: "bind_err (py_truediv (max_count [] - min_count [])
                 (if length ([] :: QuizAnswer list) = 0 then 1 else int (length ([] :: QuizAnswer list)))) py_round2 = Inr bal"
    using score_result [of "[]" db] by blast
  have "max_count [] - min_count [] = 0"
    by (simp add: max_count_eq min_count_eq count_for_Nil)
  with b have "bal = 0" by (simp add: balance_zero)
  then show ?thesis
    unfolding r by (simp add: final_scores_Nil py_sorted_reverse_def stress_count_def)
qed

text \<open>
  C3. The stress flag is set exactly when at least three answers have a question that
  is found and flagged as a stress marker, and the lowercased option driver.
\<close>

theorem C3_stress_flag_threshold:
  "\<exists>r. score answers db = Inr r \<and>
       stress_flag r =
         (3 \<le> length (filter (\<lambda>a. (\<exists>q. db (question_id a) = Some q \<and>
                                           stress_marker_flag q = Some True) \<and>
                                      lower (selected_option a) = ''driver'') answers))"
proof -
  have m: "stress_marked x = (\<exists>q. x = Some q \<and> stress_marker_flag q = Some True)" for x
    by (cases x) (simp_all add: stress_marked_def)
  have "(3 \<le> stress_count db answers) =
      (3 \<le> length (filter (\<lambda>a. (\<exists>q. db (question_id a) = Some q \<and>
                                           stress_marker_flag q = Some True) \<and>
                                      lower (selected_option a) = ''driver'') answers))"
    unfolding stress_count_def m by linarith
  then show ?thesis using score_result [of answers db] by auto
qed

text \<open>
  C10. The primary and the secondary archetype of a result are two different members of
  the four archetypes, for every sequence of answers.
\<close>

theorem C10_primary_differs_from_secondary:
  "\<exists>r. score answers db = Inr r \<and>
       primary_archetype r \<noteq> secondary_archetype r \<and>
       primary_archetype r \<in> set archetypes \<and>
       secondary_archetype r \<in> set archetypes"
  using score_result [of answers db]
    ranking4(1,2,3) [of "\<lambda>a. count_for a answers"]
  unfolding final_scores_def by auto

lemma lower_archetype_names:
  "lower ''driver'' = ''driver''" "lower ''spark'' = ''spark''"
  "lower ''anchor'' = ''anchor''" "lower ''analyst'' = ''analyst''"
  by (simp_all add: lower_def char_lower_def)

lemma final_scores_two_two:
  "final_scores [quiz_answer q1 ''driver'', quiz_answer q2 ''driver'',
                 quiz_answer q3 ''spark'', quiz_answer q4 ''spark''] =
     [(''driver'', 2), (''spark'', 2), (''anchor'', 0), (''analyst'', 0)]"
  by (simp add: final_scores_def archetypes_def count_for_def quiz_answer_def lower_archetype_names)

text \<open>
  C2. The primary archetype comes before every other archetype, and the secondary before
  every archetype but the primary, when the four are ranked by count with equal counts
  in the fixed order driver, spark, anchor, analyst. For the answers driver, driver,
  spark, spark the scores are driver 2, spark 2, anchor 0, analyst 0, the primary
  archetype is driver and the secondary is spark.
\<close>

theorem C2_tie_break_by_fixed_order:
  "(\<exists>r. score answers db = Inr r \<and>
        (\<forall>b\<in>set archetypes. b \<noteq> primary_archetype r \<longrightarrow>
            ranks_before (\<lambda>a. count_for a answers) (primary_archetype r) b) \<and>
        (\<forall>b\<in>set archetypes. b \<noteq> primary_archetype r \<longrightarrow> b \<noteq> secondary_archetype r \<longrightarrow>
            ranks_before (\<lambda>a. count_for a answers) (secondary_archetype r) b)) \<and>
   (\<exists>r. score [quiz_answer q1 ''driver'', quiz_answer q2 ''driver'',
                quiz_answer q3 ''spark'', quiz_answer q4 ''spark''] db = Inr r \<and>
        scores r = [(''driver'', 2), (''spark'', 2), (''anchor'', 0), (''analyst'', 0)] \<and>
        primary_archetype r = ''driver'' \<and> secondary_archetype r = ''spark'')"
proof
  show "\<exists>r. score answers db = Inr r \<and>
        (\<forall>b\<in>set archetypes. b \<noteq> primary_archetype r \<longrightarrow>
            ranks_before (\<lambda>a. count_for a answers) (primary_archetype r) b) \<and>
        (\<forall>b\<in>set archetypes. b \<noteq> primary_archetype r \<longrightarrow> b \<noteq> secondary_archetype r \<longrightarrow>
            ranks_before (\<lambda>a. count_for a answers) (secondary_archetype r) b)"
    using score_result [of answers db] ranking4(4,5) [of "\<lambda>a. count_for a answers"]
    unfolding final_scores_def by auto
next
  show "\<exists>r. score [quiz_answer q1 ''driver'', quiz_answer q2 ''driver'',
                quiz_answer q3 ''spark'', quiz_answer q4 ''spark''] db = Inr r \<and>
        scores r = [(''driver'', 2), (''spark'', 2), (''anchor'', 0), (''analyst'', 0)] \<and>
        primary_archetype r = ''driver'' \<and> secondary_archetype r = ''spark''"
    using score_result [of "[quiz_answer q1 ''driver'', quiz_answer q2 ''driver'',
                quiz_answer q3 ''spark'', quiz_answer q4 ''spark'']" db]
    unfolding final_scores_two_two by (auto simp add: py_sorted_reverse_def)
qed

theorem C2_tie_break_witness:
  "''spark'' \<in> set archetypes \<and>
   (\<exists>r. score [quiz_answer ''q1'' ''driver'', quiz_answer ''q2'' ''driver'',
                quiz_answer ''q3'' ''spark'', quiz_answer ''q4'' ''spark''] no_questions = Inr r \<and>
        primary_archetype r = ''driver'' \<and> secondary_archetype r = ''spark'' \<and>
        ''spark'' \<noteq> primary_archetype r \<and>
        ranks_before (\<lambda>a. count_for a [quiz_answer ''q1'' ''driver'', quiz_answer ''q2'' ''driver'',
                quiz_answer ''q3'' ''spark'', quiz_answer ''q4'' ''spark''])
          (primary_archetype r) ''spark'' \<and>
        ''anchor'' \<in> set archetypes \<and> ''anchor'' \<noteq> primary_archetype r \<and>
        ''anchor'' \<noteq> secondary_archetype r \<and>
        ranks_before (\<lambda>a. count_for a [quiz_answer ''q1'' ''driver'', quiz_answer ''q2'' ''driver'',
                quiz_answer ''q3'' ''spark'', quiz_answer ''q4'' ''spark''])
          (secondary_archetype r) ''anchor'')"
proof -
  let ?xs = "[quiz_answer ''q1'' ''driver'', quiz_answer ''q2'' ''driver'',
                quiz_answer ''q3'' ''spark'', quiz_answer ''q4'' ''spark'']"
  have mem: "''spark'' \<in> set archetypes" "''anchor'' \<in> set archetypes"
    by (simp_all add: archetypes_def)
  from C2_tie_break_by_fixed_order [of ?xs no_questions "''q1''" "''q2''" "''q3''" "''q4''"]
  obtain r r' where r: "score ?xs no_questions = Inr r"
    and p: "\<forall>b\<in>set archetypes. b \<noteq> primary_archetype r \<longrightarrow>
            ranks_before (\<lambda>a. count_for a ?xs) (primary_archetype r) b"
    and s: "\<forall>b\<in>set archetypes. b \<noteq> primary_archetype r \<longrightarrow> b \<noteq> secondary_archetype r \<longrightarrow>
            ranks_before (\<lambda>a. count_for a ?xs) (secondary_archetype r) b"
    and r': "score ?xs no_questions = Inr r'"
    and v: "primary_archetype r' = ''driver''" "secondary_archetype r' = ''spark''"
    by blast
  from r r' have eq: "r' = r" by simp
  have d: "''spark'' \<noteq> primary_archetype r" "''anchor'' \<noteq> primary_archetype r"
    "''anchor'' \<noteq> secondary_archetype r"
    using v unfolding eq by simp_all
  have "ranks_before (\<lambda>a. count_for a ?xs) (primary_archetype r) ''spark''"
    using p mem(1) d(1) by blast
  moreover have "ranks_before (\<lambda>a. count_for a ?xs) (secondary_archetype r) ''anchor''"
    using s mem(2) d(2,3) by blast
  ultimately show ?thesis using r v mem d unfolding eq by blast
qed

lemma count_for_drop:
  "lower (selected_option a) \<noteq> b \<Longrightarrow> count_for b (xs @ a # ys) = count_for b (xs @ ys)"
  by (simp add: count_for_def)

lemma final_scores_drop:
  assumes "lower (selected_option a) \<notin> set archetypes"
  shows "final_scores (xs @ a # ys) = final_scores (xs @ ys)"
proof -
  have "count_for b (xs @ a # ys) = count_for b (xs @ ys)" if "b \<in> set archetypes" for b
    using that assms by (intro count_for_drop) auto
  then show ?thesis unfolding final_scores_def by simp
qed

lemma stress_count_drop:
  "lower (selected_option a) \<noteq> ''driver'' \<Longrightarrow>
     stress_count db (xs @ a # ys) = stress_count db (xs @ ys)"
  by (simp add: stress_count_def)

text \<open>
  C8. An answer whose lowercased option is none of the four archetypes is ignored: the
  loop leaves every count and the stress-marker counter as they are, so scoring with the
  answer anywhere in the sequence gives the counts, the stress-marker counter, the stress
  flag and the two archetypes of scoring without it, and scoring does not fail.
\<close>

theorem C8_unrecognized_answer_ignored:
  assumes "lower (selected_option a) \<notin> set archetypes"
  shows "score_step db a (final_scores xs, n) = (final_scores xs, n) \<and>
     score_loop db (xs @ a # ys) (initial_scores, 0) = score_loop db (xs @ ys) (initial_scores, 0) \<and>
     (\<exists>r r'. score (xs @ a # ys) db = Inr r \<and> score (xs @ ys) db = Inr r' \<and>
        scores r = scores r' \<and> stress_flag r = stress_flag r' \<and>
        primary_archetype r = primary_archetype r' \<and>
        secondary_archetype r = secondary_archetype r')"
proof -
  have nd: "lower (selected_option a) \<noteq> ''driver''"
    using assms by (auto simp add: archetypes_def)
  have f: "final_scores (xs @ a # ys) = final_scores (xs @ ys)"
    using assms by (rule final_scores_drop)
  have s: "stress_count db (xs @ a # ys) = stress_count db (xs @ ys)"
    using nd by (rule stress_count_drop)
  have step: "score_step db a (final_scores xs, n) = (final_scores xs, n)"
    using assms nd
    by (simp add: score_step_def Let_def dict_contains_def final_scores_def comp_def)
  have loop: "score_loop db (xs @ a # ys) (initial_scores, 0) =
      score_loop db (xs @ ys) (initial_scores, 0)"
    by (simp only: score_loop_initial f s)
  have res: "\<exists>r r'. score (xs @ a # ys) db = Inr r \<and> score (xs @ ys) db = Inr r' \<and>
        scores r = scores r' \<and> stress_flag r = stress_flag r' \<and>
        primary_archetype r = primary_archetype r' \<and>
        secondary_archetype r = secondary_archetype r'"
    using score_result [of "xs @ a # ys" db] score_result [of "xs @ ys" db]
    unfolding f s by auto
  from step loop res show ?thesis by blast
qed

theorem C8_unrecognized_answer_witness:
  "lower (selected_option (quiz_answer ''q2'' ''Leader'')) \<notin> set archetypes \<and>
   score_loop no_questions [quiz_answer ''q1'' ''driver'', quiz_answer ''q2'' ''Leader'',
       quiz_answer ''q3'' ''spark''] (initial_scores, 0) =
     score_loop no_questions [quiz_answer ''q1'' ''driver'', quiz_answer ''q3'' ''spark'']
       (initial_scores, 0)"
proof -
  have h: "lower (selected_option (quiz_answer ''q2'' ''Leader'')) \<notin> set archetypes"
    by (simp add: quiz_answer_def lower_def char_lower_def archetypes_def)
  from C8_unrecognized_answer_ignored [OF h, of no_questions "[quiz_answer ''q1'' ''driver'']" 0
      "[quiz_answer ''q3'' ''spark'']"]
  show ?thesis using h by simp
qed

lemma bit_length_values:
  "bit_length (Suc 0) = 1" "bit_length 1 = 1" "bit_length 2 = 2"
  "bit_length 50 = 6" "bit_length 100 = 7"
  by (simp_all add: bit_length.simps)

lemma nearest_double_values:
  "nearest_double 1 2 = 1 / 2" "nearest_double 50 100 = 1 / 2"
  "nearest_double 1 1 = 1" "nearest_double 100 100 = 1"
  by (simp_all add: nearest_double_def floor_log2_def pow2_def round_half_even_def
      bit_length_values)

lemma balance_half: "bind_err (py_truediv 1 2) py_round2 = Inr (1 / 2)"
  by (simp add: bind_err_def py_truediv_def py_round2_def to_double_def nearest_double_values
      round_half_even_def)

lemma balance_one: "bind_err (py_truediv 1 1) py_round2 = Inr 1"
  by (simp add: bind_err_def py_truediv_def py_round2_def to_double_def nearest_double_values
      round_half_even_def)

lemma counts_driver_other:
  "count_for ''driver'' [quiz_answer ''q1'' ''driver'', quiz_answer ''q2'' ''other''] = 1"
  "count_for ''spark'' [quiz_answer ''q1'' ''driver'', quiz_answer ''q2'' ''other''] = 0"
  "count_for ''anchor'' [quiz_answer ''q1'' ''driver'', quiz_answer ''q2'' ''other''] = 0"
  "count_for ''analyst'' [quiz_answer ''q1'' ''driver'', quiz_answer ''q2'' ''other''] = 0"
  by (simp_all add: count_for_def quiz_answer_def lower_def char_lower_def)

lemma scored_driver_other:
  "scored_answers [quiz_answer ''q1'' ''driver'', quiz_answer ''q2'' ''other''] =
     [quiz_answer ''q1'' ''driver'']"
  by (simp add: scored_answers_def quiz_answer_def lower_def char_lower_def archetypes_def)

lemma score_balance:
  "\<exists>r. score answers db = Inr r \<and>
       bind_err (py_truediv (max_count answers - min_count answers)
                   (if length answers = 0 then 1 else int (length answers)))
         py_round2 = Inr (balance_index r)"
  using score_result [of answers db] by auto

text \<open>
  C1, as the code computes it. The balance index is
  \<open>round((max_count - min_count) / total, 2)\<close>, where \<open>total\<close> is the number of all
  answers submitted, recognized or not, and 1 when there are none; the quotient and its
  rounding never fail.
\<close>

theorem C1_balance_index_over_all_answers:
  "\<exists>r. score answers db = Inr r \<and>
       bind_err (py_truediv (max_count answers - min_count answers)
                   (if length answers = 0 then 1 else int (length answers)))
         py_round2 = Inr (balance_index r)"
  by (rule score_balance)

text \<open>
  C1, as stated, fails: for the answers driver and other, one answer is scored and two
  are submitted; the code returns 0.5, the denominator of the claim gives 1.0.
\<close>

theorem C1_balance_index_counterexample:
  "map_sum id balance_index
      (score [quiz_answer ''q1'' ''driver'', quiz_answer ''q2'' ''other''] no_questions) = Inr (1 / 2) \<and>
   balance_index_over_scored [quiz_answer ''q1'' ''driver'', quiz_answer ''q2'' ''other''] = Inr 1 \<and>
   map_sum id balance_index
      (score [quiz_answer ''q1'' ''driver'', quiz_answer ''q2'' ''other''] no_questions) \<noteq>
   balance_index_over_scored [quiz_answer ''q1'' ''driver'', quiz_answer ''q2'' ''other'']"
proof -
  let ?xs = "[quiz_answer ''q1'' ''driver'', quiz_answer ''q2'' ''other'']"
  have d: "max_count ?xs - min_count ?xs = 1"
    by (simp add: max_count_eq min_count_eq counts_driver_other)
  obtain r where r: "score ?xs no_questions = Inr r"
    and b: "bind_err (py_truediv (max_count ?xs - min_count ?xs)
                   (if length ?xs = 0 then 1 else int (length ?xs))) py_round2 = Inr (balance_index r)"
    using score_balance [of ?xs no_questions] by blast
  have "balance_index r = 1 / 2" using b unfolding d by (simp add: balance_half)
  then have code: "map_sum id balance_index (score ?xs no_questions) = Inr (1 / 2)"
    by (simp add: r)
  have spec: "balance_index_over_scored ?xs = Inr 1"
    unfolding balance_index_over_scored_def d scored_driver_other by (simp add: balance_one)
  show ?thesis unfolding code spec by simp
qed

section \<open>The compatibility matrix\<close>

lemma matrix_lookup:
  "map_of COMPATIBILITY_MATRIX ''driver_driver'' = Some (entry ''driver_driver'' 65 ''high'')"
  "map_of COMPATIBILITY_MATRIX ''driver_spark'' = Some (entry ''driver_spark'' 85 ''very_high'')"
  "map_of COMPATIBILITY_MATRIX ''driver_anchor'' = Some (entry ''driver_anchor'' 75 ''balanced'')"
  "map_of COMPATIBILITY_MATRIX ''driver_analyst'' = Some (entry ''driver_analyst'' 70 ''focused'')"
  "map_of COMPATIBILITY_MATRIX ''spark_spark'' = Some (entry ''spark_spark'' 75 ''explosive'')"
  "map_of COMPATIBILITY_MATRIX ''spark_anchor'' = Some (entry ''spark_anchor'' 90 ''harmonious'')"
  "map_of COMPATIBILITY_MATRIX ''spark_analyst'' = Some (entry ''spark_analyst'' 60 ''contrasting'')"
  "map_of COMPATIBILITY_MATRIX ''anchor_anchor'' = Some (entry ''anchor_anchor'' 80 ''peaceful'')"
  "map_of COMPATIBILITY_MATRIX ''anchor_analyst'' = Some (entry ''anchor_analyst'' 70 ''thoughtful'')"
  "map_of COMPATIBILITY_MATRIX ''analyst_analyst'' = Some (entry ''analyst_analyst'' 75 ''intellectual'')"
  "map_of COMPATIBILITY_MATRIX ''spark_driver'' = Some (entry ''spark_driver'' 85 ''very_high'')"
  "map_of COMPATIBILITY_MATRIX ''anchor_driver'' = Some (entry ''anchor_driver'' 75 ''balanced'')"
  "map_of COMPATIBILITY_MATRIX ''analyst_driver'' = Some (entry ''analyst_driver'' 70 ''focused'')"
  "map_of COMPATIBILITY_MATRIX ''anchor_spark'' = Some (entry ''anchor_spark'' 90 ''harmonious'')"
  "map_of COMPATIBILITY_MATRIX ''analyst_spark'' = Some (entry ''analyst_spark'' 60 ''contrasting'')"
  "map_of COMPATIBILITY_MATRIX ''analyst_anchor'' = Some (entry ''analyst_anchor'' 70 ''thoughtful'')"
  by (simp_all add: COMPATIBILITY_MATRIX_def)

lemma matrix_symmetric:
  assumes "x \<in> set archetypes" "y \<in> set archetypes"
  shows "\<exists>s e. map_of COMPATIBILITY_MATRIX (x @ ''_'' @ y) = Some (entry (x @ ''_'' @ y) s e) \<and>
               map_of COMPATIBILITY_MATRIX (y @ ''_'' @ x) = Some (entry (y @ ''_'' @ x) s e)"
proof -
  have x: "x = ''driver'' \<or> x = ''spark'' \<or> x = ''anchor'' \<or> x = ''analyst''"
    using assms(1) by (simp add: archetypes_def)
  have y: "y = ''driver'' \<or> y = ''spark'' \<or> y = ''anchor'' \<or> y = ''analyst''"
    using assms(2) by (simp add: archetypes_def)
  from x y show ?thesis
    by (elim disjE) (simp_all only: append.simps matrix_lookup, blast+)
qed


lemma entry_fields:
  "py_getitem (entry k s e) ''compatibility_score'' = Inr (PyInt s)"
  "py_getitem (entry k s e) ''energy'' = Inr (PyStr e)"
  "py_getitem (entry k s e) ''title_id'' = Inr (PyText k ''title_id'')"
  "py_getitem (entry k s e) ''title_en'' = Inr (PyText k ''title_en'')"
  "py_getitem (entry k s e) ''summary_id'' = Inr (PyText k ''summary_id'')"
  "py_getitem (entry k s e) ''summary_en'' = Inr (PyText k ''summary_en'')"
  "py_getitem (entry k s e) ''strengths_id'' = Inr (PyText k ''strengths_id'')"
  "py_getitem (entry k s e) ''strengths_en'' = Inr (PyText k ''strengths_en'')"
  "py_getitem (entry k s e) ''challenges_id'' = Inr (PyText k ''challenges_id'')"
  "py_getitem (entry k s e) ''challenges_en'' = Inr (PyText k ''challenges_en'')"
  "py_getitem (entry k s e) ''tips_id'' = Inr (PyText k ''tips_id'')"
  "py_getitem (entry k s e) ''tips_en'' = Inr (PyText k ''tips_en'')"
  by (simp_all add: py_getitem_def entry_def narrative_fields_def)

lemma dict_contains_map_of: "dict_contains k d = (map_of d k \<noteq> None)"
  by (simp add: dict_contains_def map_of_eq_None_iff)

lemma pair_found:
  assumes m: "map_of COMPATIBILITY_MATRIX (lower a @ ''_'' @ lower b) = Some (entry k s e)"
    and l: "l \<in> set supported_languages"
  shows "get_compatibility_pair a b l = Inr (pair_view (lower a) (lower b) k s e l)"
proof -
  have c: "dict_contains (lower a @ ''_'' @ lower b) COMPATIBILITY_MATRIX"
    by (simp only: dict_contains_map_of m) simp
  have g: "py_getitem COMPATIBILITY_MATRIX (lower a @ ''_'' @ lower b) = Inr (entry k s e)"
    by (simp only: py_getitem_def m option.case)
  have "l = ''id'' \<or> l = ''en''" using l by (simp add: supported_languages_def)
  then show ?thesis
  proof
    assume "l = ''id''"
    then show ?thesis
      unfolding get_compatibility_pair_def Let_def pair_view_def
      using c g by (simp add: bind_err_def entry_fields)
  next
    assume "l = ''en''"
    then show ?thesis
      unfolding get_compatibility_pair_def Let_def pair_view_def
      using c g by (simp add: bind_err_def entry_fields)
  qed
qed

section \<open>Claims about the compatibility endpoints\<close>

lemma split_key:
  assumes eq: "x @ ''_'' @ y = u @ ''_'' @ v"
    and u: "u \<in> set archetypes" and v: "v \<in> set archetypes"
  shows "x \<in> set archetypes \<and> y \<in> set archetypes"
proof -
  have nu: "CHR ''_'' \<notin> set u" using u by (auto simp add: archetypes_def)
  have nv: "CHR ''_'' \<notin> set v" using v by (auto simp add: archetypes_def)
  from eq have "u @ CHR ''_'' # v = x @ CHR ''_'' # y" by simp
  with append_Cons_eq_iff [OF nu nv, of x y] have "x = u \<and> y = v" by auto
  with u v show ?thesis by simp
qed

lemma key_cases:
  "x @ ''_'' @ y = ''driver_driver'' \<Longrightarrow> x \<in> set archetypes \<and> y \<in> set archetypes"
  "x @ ''_'' @ y = ''driver_spark'' \<Longrightarrow> x \<in> set archetypes \<and> y \<in> set archetypes"
  "x @ ''_'' @ y = ''driver_anchor'' \<Longrightarrow> x \<in> set archetypes \<and> y \<in> set archetypes"
  "x @ ''_'' @ y = ''driver_analyst'' \<Longrightarrow> x \<in> set archetypes \<and> y \<in> set archetypes"
  "x @ ''_'' @ y = ''spark_driver'' \<Longrightarrow> x \<in> set archetypes \<and> y \<in> set archetypes"
  "x @ ''_'' @ y = ''spark_spark'' \<Longrightarrow> x \<in> set archetypes \<and> y \<in> set archetypes"
  "x @ ''_'' @ y = ''spark_anchor'' \<Longrightarrow> x \<in> set archetypes \<and> y \<in> set archetypes"
  "x @ ''_'' @ y = ''spark_analyst'' \<Longrightarrow> x \<in> set archetypes \<and> y \<in> set archetypes"
  "x @ ''_'' @ y = ''anchor_driver'' \<Longrightarrow> x \<in> set archetypes \<and> y \<in> set archetypes"
  "x @ ''_'' @ y = ''anchor_spark'' \<Longrightarrow> x \<in> set archetypes \<and> y \<in> set archetypes"
  "x @ ''_'' @ y = ''anchor_anchor'' \<Longrightarrow> x \<in> set archetypes \<and> y \<in> set archetypes"
  "x @ ''_'' @ y = ''anchor_analyst'' \<Longrightarrow> x \<in> set archetypes \<and> y \<in> set archetypes"
  "x @ ''_'' @ y = ''analyst_driver'' \<Longrightarrow> x \<in> set archetypes \<and> y \<in> set archetypes"
  "x @ ''_'' @ y = ''analyst_spark'' \<Longrightarrow> x \<in> set archetypes \<and> y \<in> set archetypes"
  "x @ ''_'' @ y = ''analyst_anchor'' \<Longrightarrow> x \<in> set archetypes \<and> y \<in> set archetypes"
  "x @ ''_'' @ y = ''analyst_analyst'' \<Longrightarrow> x \<in> set archetypes \<and> y \<in> set archetypes"
  subgoal by (rule split_key [of x y "''driver''" "''driver''"]) (simp_all add: archetypes_def)
  subgoal by (rule split_key [of x y "''driver''" "''spark''"]) (simp_all add: archetypes_def)
  subgoal by (rule split_key [of x y "''driver''" "''anchor''"]) (simp_all add: archetypes_def)
  subgoal by (rule split_key [of x y "''driver''" "''analyst''"]) (simp_all add: archetypes_def)
  subgoal by (rule split_key [of x y "''spark''" "''driver''"]) (simp_all add: archetypes_def)
  subgoal by (rule split_key [of x y "''spark''" "''spark''"]) (simp_all add: archetypes_def)
  subgoal by (rule split_key [of x y "''spark''" "''anchor''"]) (simp_all add: archetypes_def)
  subgoal by (rule split_key [of x y "''spark''" "''analyst''"]) (simp_all add: archetypes_def)
  subgoal by (rule split_key [of x y "''anchor''" "''driver''"]) (simp_all add: archetypes_def)
  subgoal by (rule split_key [of x y "''anchor''" "''spark''"]) (simp_all add: archetypes_def)
  subgoal by (rule split_key [of x y "''anchor''" "''anchor''"]) (simp_all add: archetypes_def)
  subgoal by (rule split_key [of x y "''anchor''" "''analyst''"]) (simp_all add: archetypes_def)
  subgoal by (rule split_key [of x y "''analyst''" "''driver''"]) (simp_all add: archetypes_def)
  subgoal by (rule split_key [of x y "''analyst''" "''spark''"]) (simp_all add: archetypes_def)
  subgoal by (rule split_key [of x y "''analyst''" "''anchor''"]) (simp_all add: archetypes_def)
  subgoal by (rule split_key [of x y "''analyst''" "''analyst''"]) (simp_all add: archetypes_def)
  done

lemma matrix_key_valid:
  assumes "dict_contains (x @ ''_'' @ y) COMPATIBILITY_MATRIX"
  shows "x \<in> set archetypes \<and> y \<in> set archetypes"
proof -
  from assms have "x @ ''_'' @ y = ''driver_driver'' \<or>
      x @ ''_'' @ y = ''driver_spark'' \<or>
      x @ ''_'' @ y = ''driver_anchor'' \<or>
      x @ ''_'' @ y = ''driver_analyst'' \<or>
      x @ ''_'' @ y = ''spark_spark'' \<or>
      x @ ''_'' @ y = ''spark_anchor'' \<or>
      x @ ''_'' @ y = ''spark_analyst'' \<or>
      x @ ''_'' @ y = ''anchor_anchor'' \<or>
      x @ ''_'' @ y = ''anchor_analyst'' \<or>
      x @ ''_'' @ y = ''analyst_analyst'' \<or>
      x @ ''_'' @ y = ''spark_driver'' \<or>
      x @ ''_'' @ y = ''anchor_driver'' \<or>
      x @ ''_'' @ y = ''analyst_driver'' \<or>
      x @ ''_'' @ y = ''anchor_spark'' \<or>
      x @ ''_'' @ y = ''analyst_spark'' \<or>
      x @ ''_'' @ y = ''analyst_anchor''"
    by (simp add: dict_contains_def COMPATIBILITY_MATRIX_def)
  then show ?thesis by (elim disjE) (erule key_cases)+
qed

lemma pair_invalid:
  assumes "lower a \<notin> set archetypes \<or> lower b \<notin> set archetypes"
  shows "get_compatibility_pair a b l = Inl (HTTPException 404 ''Compatibility pair not found'')"
proof -
  have "\<not> dict_contains (lower a @ ''_'' @ lower b) COMPATIBILITY_MATRIX"
    using assms matrix_key_valid [of "lower a" "lower b"] by blast
  moreover have "\<not> dict_contains (lower b @ ''_'' @ lower a) COMPATIBILITY_MATRIX"
    using assms matrix_key_valid [of "lower b" "lower a"] by blast
  ultimately show ?thesis
    unfolding get_compatibility_pair_def Let_def by (simp add: bind_err_def)
qed

text \<open>
  C6, as the code behaves. For a name whose lowercased form is none of the four
  archetypes, the ranking endpoint fails with 400 (invalid archetype); the pair endpoint
  fails with 404 (pair not found), whichever of its two arguments the name is and
  whatever the language.
\<close>

theorem C6_invalid_archetype_errors:
  assumes "lower a \<notin> set archetypes"
  shows "get_compatibility_for_archetype a l = Inl (HTTPException 400 ''Invalid archetype'') \<and>
     is_invalid_argument (get_compatibility_for_archetype a l) \<and>
     get_compatibility_pair a b l = Inl (HTTPException 404 ''Compatibility pair not found'') \<and>
     get_compatibility_pair b a l = Inl (HTTPException 404 ''Compatibility pair not found'') \<and>
     is_not_found (get_compatibility_pair a b l) \<and>
     is_not_found (get_compatibility_pair b a l)"
proof -
  have r: "get_compatibility_for_archetype a l = Inl (HTTPException 400 ''Invalid archetype'')"
    using assms by (simp add: get_compatibility_for_archetype_def)
  have p: "get_compatibility_pair a b l = Inl (HTTPException 404 ''Compatibility pair not found'')"
    using assms by (intro pair_invalid) simp
  have q: "get_compatibility_pair b a l = Inl (HTTPException 404 ''Compatibility pair not found'')"
    using assms by (intro pair_invalid) simp
  show ?thesis unfolding r p q by (simp add: is_invalid_argument_def is_not_found_def)
qed

theorem C6_invalid_archetype_witness:
  "lower ''Leader'' \<notin> set archetypes \<and>
   get_compatibility_for_archetype ''Leader'' ''en'' = Inl (HTTPException 400 ''Invalid archetype'') \<and>
   get_compatibility_pair ''Leader'' ''driver'' ''en'' =
     Inl (HTTPException 404 ''Compatibility pair not found'')"
proof -
  have h: "lower ''Leader'' \<notin> set archetypes"
    by (simp add: lower_def char_lower_def archetypes_def)
  from C6_invalid_archetype_errors [OF h, of "''en''" "''driver''"] h
  show ?thesis by simp
qed

text \<open>
  C6, as stated, fails: the pair endpoint answers an invalid name with 404, which is not
  the invalid-argument error.
\<close>

theorem C6_invalid_archetype_counterexample:
  "lower ''leader'' \<notin> set archetypes \<and>
   get_compatibility_pair ''leader'' ''driver'' ''en'' =
     Inl (HTTPException 404 ''Compatibility pair not found'') \<and>
   \<not> is_invalid_argument (get_compatibility_pair ''leader'' ''driver'' ''en'')"
proof -
  have h: "lower ''leader'' \<notin> set archetypes"
    by (simp add: lower_def char_lower_def archetypes_def)
  then have p: "get_compatibility_pair ''leader'' ''driver'' ''en'' =
      Inl (HTTPException 404 ''Compatibility pair not found'')"
    by (intro pair_invalid) simp
  show ?thesis using h unfolding p by (simp add: is_invalid_argument_def)
qed

lemma lower_examples:
  "lower ''Analyst'' = ''analyst''" "lower ''ANALYST'' = ''analyst''"
  "lower ''Driver'' = ''driver''"
  by code_simp+

lemma pair_view_fields:
  "py_getitem (pair_view x y k s e l) ''compatibility_score'' = Inr (PyInt s)"
  "py_getitem (pair_view x y k s e l) ''energy'' = Inr (PyStr e)"
  by (simp_all add: py_getitem_def pair_view_def)

lemma is_not_found_bind:
  assumes "\<not> is_not_found m" "\<And>x. \<not> is_not_found (f x)"
  shows "\<not> is_not_found (bind_err m f)"
  using assms by (cases m) (simp_all add: bind_err_def is_not_found_def)

lemma is_not_found_getitem: "\<not> is_not_found (py_getitem d k)"
  by (simp add: py_getitem_def is_not_found_def split: option.split)

lemma is_not_found_Inr: "\<not> is_not_found (Inr v)"
  by (simp add: is_not_found_def)

lemma pair_never_not_found:
  assumes c: "dict_contains (lower a @ ''_'' @ lower b) COMPATIBILITY_MATRIX"
  shows "\<not> is_not_found (get_compatibility_pair a b l)"
  unfolding get_compatibility_pair_def Let_def
  by (simp only: c not_True_eq_False if_False)
     (intro is_not_found_bind is_not_found_getitem is_not_found_Inr)

text \<open>
  C5. For two names whose lowercased forms are archetypes, the key in the caller's order
  is in the matrix, so the lookup never reaches its not-found branch, whatever the
  language, and for each supported language it returns the view of the record.
\<close>

theorem C5_valid_pair_resolves:
  assumes "lower a \<in> set archetypes" "lower b \<in> set archetypes"
  shows "dict_contains (lower a @ ''_'' @ lower b) COMPATIBILITY_MATRIX \<and>
     (\<forall>l. \<not> is_not_found (get_compatibility_pair a b l)) \<and>
     (\<forall>l\<in>set supported_languages. \<exists>s e.
        py_getitem COMPATIBILITY_MATRIX (lower a @ ''_'' @ lower b) =
          Inr (entry (lower a @ ''_'' @ lower b) s e) \<and>
        get_compatibility_pair a b l =
          Inr (pair_view (lower a) (lower b) (lower a @ ''_'' @ lower b) s e l))"
proof -
  obtain s e where m: "map_of COMPATIBILITY_MATRIX (lower a @ ''_'' @ lower b) =
      Some (entry (lower a @ ''_'' @ lower b) s e)"
    using matrix_symmetric [OF assms] by blast
  have c: "dict_contains (lower a @ ''_'' @ lower b) COMPATIBILITY_MATRIX"
    by (simp only: dict_contains_map_of m) simp
  have g: "py_getitem COMPATIBILITY_MATRIX (lower a @ ''_'' @ lower b) =
      Inr (entry (lower a @ ''_'' @ lower b) s e)"
    by (simp only: py_getitem_def m option.case)
  have n: "\<forall>l. \<not> is_not_found (get_compatibility_pair a b l)"
    using pair_never_not_found [OF c] by blast
  have "get_compatibility_pair a b l =
      Inr (pair_view (lower a) (lower b) (lower a @ ''_'' @ lower b) s e l)"
    if "l \<in> set supported_languages" for l
    using m that by (rule pair_found)
  with c g n show ?thesis by blast
qed

theorem C5_valid_pair_witness:
  "lower ''Analyst'' \<in> set archetypes \<and> lower ''driver'' \<in> set archetypes \<and>
   ''id'' \<in> set supported_languages \<and>
   \<not> is_not_found (get_compatibility_pair ''Analyst'' ''driver'' ''id'') \<and>
   (\<exists>s e. get_compatibility_pair ''Analyst'' ''driver'' ''id'' =
      Inr (pair_view ''analyst'' ''driver'' ''analyst_driver'' s e ''id''))"
proof -
  have a: "lower ''Analyst'' = ''analyst''" and b: "lower ''driver'' = ''driver''"
    by (simp_all add: lower_examples lower_archetype_names)
  have h: "lower ''Analyst'' \<in> set archetypes" "lower ''driver'' \<in> set archetypes"
    unfolding a b by (simp_all add: archetypes_def)
  have l: "''id'' \<in> set supported_languages" by (simp add: supported_languages_def)
  from C5_valid_pair_resolves [OF h] l
  have "\<not> is_not_found (get_compatibility_pair ''Analyst'' ''driver'' ''id'')"
    and "\<exists>s e. get_compatibility_pair ''Analyst'' ''driver'' ''id'' =
      Inr (pair_view (lower ''Analyst'') (lower ''driver'') (lower ''Analyst'' @ ''_'' @ lower ''driver'') s e ''id'')"
    by blast+
  then show ?thesis using h l unfolding a b by simp
qed

text \<open>
  C4. For two names whose lowercased forms are archetypes and a supported language, the
  lookup in either argument order returns the same compatibility score and the same
  energy label. For spark and anchor in English both orders return the score 90 and the
  energy harmonious.
\<close>

theorem C4_lookup_symmetric:
  "(lower a \<in> set archetypes \<longrightarrow> lower b \<in> set archetypes \<longrightarrow> l \<in> set supported_languages \<longrightarrow>
      (\<exists>v w s e. get_compatibility_pair a b l = Inr v \<and> get_compatibility_pair b a l = Inr w \<and>
         py_getitem v ''compatibility_score'' = Inr (PyInt s) \<and>
         py_getitem w ''compatibility_score'' = Inr (PyInt s) \<and>
         py_getitem v ''energy'' = Inr (PyStr e) \<and>
         py_getitem w ''energy'' = Inr (PyStr e))) \<and>
   (\<exists>v w. get_compatibility_pair ''spark'' ''anchor'' ''en'' = Inr v \<and>
          get_compatibility_pair ''anchor'' ''spark'' ''en'' = Inr w \<and>
          py_getitem v ''compatibility_score'' = Inr (PyInt 90) \<and>
          py_getitem w ''compatibility_score'' = Inr (PyInt 90) \<and>
          py_getitem v ''energy'' = Inr (PyStr ''harmonious'') \<and>
          py_getitem w ''energy'' = Inr (PyStr ''harmonious''))"
proof (intro conjI impI)
  assume a: "lower a \<in> set archetypes" and b: "lower b \<in> set archetypes"
    and l: "l \<in> set supported_languages"
  obtain s e where
    m1: "map_of COMPATIBILITY_MATRIX (lower a @ ''_'' @ lower b) =
            Some (entry (lower a @ ''_'' @ lower b) s e)" and
    m2: "map_of COMPATIBILITY_MATRIX (lower b @ ''_'' @ lower a) =
            Some (entry (lower b @ ''_'' @ lower a) s e)"
    using matrix_symmetric [OF a b] by blast
  show "\<exists>v w s e. get_compatibility_pair a b l = Inr v \<and> get_compatibility_pair b a l = Inr w \<and>
         py_getitem v ''compatibility_score'' = Inr (PyInt s) \<and>
         py_getitem w ''compatibility_score'' = Inr (PyInt s) \<and>
         py_getitem v ''energy'' = Inr (PyStr e) \<and>
         py_getitem w ''energy'' = Inr (PyStr e)"
    using pair_found [OF m1 l] pair_found [OF m2 l] pair_view_fields by blast
next
  have l: "''en'' \<in> set supported_languages" by (simp add: supported_languages_def)
  have m1: "map_of COMPATIBILITY_MATRIX (lower ''spark'' @ ''_'' @ lower ''anchor'') =
      Some (entry ''spark_anchor'' 90 ''harmonious'')"
    by (simp add: lower_archetype_names matrix_lookup)
  have m2: "map_of COMPATIBILITY_MATRIX (lower ''anchor'' @ ''_'' @ lower ''spark'') =
      Some (entry ''anchor_spark'' 90 ''harmonious'')"
    by (simp add: lower_archetype_names matrix_lookup)
  show "\<exists>v w. get_compatibility_pair ''spark'' ''anchor'' ''en'' = Inr v \<and>
          get_compatibility_pair ''anchor'' ''spark'' ''en'' = Inr w \<and>
          py_getitem v ''compatibility_score'' = Inr (PyInt 90) \<and>
          py_getitem w ''compatibility_score'' = Inr (PyInt 90) \<and>
          py_getitem v ''energy'' = Inr (PyStr ''harmonious'') \<and>
          py_getitem w ''energy'' = Inr (PyStr ''harmonious'')"
    using pair_found [OF m1 l] pair_found [OF m2 l] pair_view_fields by blast
qed

theorem C4_lookup_symmetric_witness:
  "lower ''Driver'' \<in> set archetypes \<and> lower ''ANALYST'' \<in> set archetypes \<and>
   ''id'' \<in> set supported_languages \<and>
   (\<exists>v w s e. get_compatibility_pair ''Driver'' ''ANALYST'' ''id'' = Inr v \<and>
      get_compatibility_pair ''ANALYST'' ''Driver'' ''id'' = Inr w \<and>
      py_getitem v ''compatibility_score'' = Inr (PyInt s) \<and>
      py_getitem w ''compatibility_score'' = Inr (PyInt s) \<and>
      py_getitem v ''energy'' = Inr (PyStr e) \<and>
      py_getitem w ''energy'' = Inr (PyStr e))"
proof -
  have h: "lower ''Driver'' \<in> set archetypes" "lower ''ANALYST'' \<in> set archetypes"
    by (simp_all add: lower_examples archetypes_def)
  have l: "''id'' \<in> set supported_languages" by (simp add: supported_languages_def)
  from C4_lookup_symmetric [of "''Driver''" "''ANALYST''" "''id''"] h l
  show ?thesis by blast
qed

lemma for_archetype_step_found:
  assumes m: "map_of COMPATIBILITY_MATRIX (x @ ''_'' @ o_arch) = Some (entry k s e)"
    and l: "l \<in> set supported_languages"
  shows "for_archetype_step x l o_arch acc = Inr (acc @ [compat_item o_arch k s e l])"
proof -
  have c: "dict_contains (x @ ''_'' @ o_arch) COMPATIBILITY_MATRIX"
    by (simp only: dict_contains_map_of m) simp
  have g: "py_getitem COMPATIBILITY_MATRIX (x @ ''_'' @ o_arch) = Inr (entry k s e)"
    by (simp only: py_getitem_def m option.case)
  have "l = ''id'' \<or> l = ''en''" using l by (simp add: supported_languages_def)
  then show ?thesis
  proof
    assume "l = ''id''"
    then show ?thesis
      unfolding for_archetype_step_def Let_def compat_item_def
      using c g by (simp add: bind_err_def entry_fields)
  next
    assume "l = ''en''"
    then show ?thesis
      unfolding for_archetype_step_def Let_def compat_item_def
      using c g by (simp add: bind_err_def entry_fields)
  qed
qed

lemma compat_item_fields:
  "compatibility_score_of (compat_item o_arch k s e l) = s"
  "with_archetype_of (compat_item o_arch k s e l) = o_arch"
  "py_getitem (compat_item o_arch k s e l) ''compatibility_score'' = Inr (PyInt s)"
  "py_getitem (compat_item o_arch k s e l) ''with_archetype'' = Inr (PyStr o_arch)"
  by (simp_all add: compat_item_def compatibility_score_of_def with_archetype_of_def py_getitem_def)

lemma for_archetype_steps:
  assumes l: "l \<in> set supported_languages"
  shows
    "for_archetype_step ''driver'' l ''driver'' acc = Inr (acc @ [compat_item ''driver'' ''driver_driver'' 65 ''high'' l])"
    "for_archetype_step ''driver'' l ''spark'' acc = Inr (acc @ [compat_item ''spark'' ''driver_spark'' 85 ''very_high'' l])"
    "for_archetype_step ''driver'' l ''anchor'' acc = Inr (acc @ [compat_item ''anchor'' ''driver_anchor'' 75 ''balanced'' l])"
    "for_archetype_step ''driver'' l ''analyst'' acc = Inr (acc @ [compat_item ''analyst'' ''driver_analyst'' 70 ''focused'' l])"
    "for_archetype_step ''spark'' l ''driver'' acc = Inr (acc @ [compat_item ''driver'' ''spark_driver'' 85 ''very_high'' l])"
    "for_archetype_step ''spark'' l ''spark'' acc = Inr (acc @ [compat_item ''spark'' ''spark_spark'' 75 ''explosive'' l])"
    "for_archetype_step ''spark'' l ''anchor'' acc = Inr (acc @ [compat_item ''anchor'' ''spark_anchor'' 90 ''harmonious'' l])"
    "for_archetype_step ''spark'' l ''analyst'' acc = Inr (acc @ [compat_item ''analyst'' ''spark_analyst'' 60 ''contrasting'' l])"
    "for_archetype_step ''anchor'' l ''driver'' acc = Inr (acc @ [compat_item ''driver'' ''anchor_driver'' 75 ''balanced'' l])"
    "for_archetype_step ''anchor'' l ''spark'' acc = Inr (acc @ [compat_item ''spark'' ''anchor_spark'' 90 ''harmonious'' l])"
    "for_archetype_step ''anchor'' l ''anchor'' acc = Inr (acc @ [compat_item ''anchor'' ''anchor_anchor'' 80 ''peaceful'' l])"
    "for_archetype_step ''anchor'' l ''analyst'' acc = Inr (acc @ [compat_item ''analyst'' ''anchor_analyst'' 70 ''thoughtful'' l])"
    "for_archetype_step ''analyst'' l ''driver'' acc = Inr (acc @ [compat_item ''driver'' ''analyst_driver'' 70 ''focused'' l])"
    "for_archetype_step ''analyst'' l ''spark'' acc = Inr (acc @ [compat_item ''spark'' ''analyst_spark'' 60 ''contrasting'' l])"
    "for_archetype_step ''analyst'' l ''anchor'' acc = Inr (acc @ [compat_item ''anchor'' ''analyst_anchor'' 70 ''thoughtful'' l])"
    "for_archetype_step ''analyst'' l ''analyst'' acc = Inr (acc @ [compat_item ''analyst'' ''analyst_analyst'' 75 ''intellectual'' l])"
  by (rule for_archetype_step_found [OF _ l], simp add: matrix_lookup)+

lemma for_archetype_driver:
  assumes a: "lower a = ''driver''" and l: "l \<in> set supported_languages"
  shows "get_compatibility_for_archetype a l =
     Inr \<lparr>archetype = ''driver'',
          compatibilities =
            [compat_item ''spark'' ''driver_spark'' 85 ''very_high'' l,
             compat_item ''anchor'' ''driver_anchor'' 75 ''balanced'' l,
             compat_item ''analyst'' ''driver_analyst'' 70 ''focused'' l,
             compat_item ''driver'' ''driver_driver'' 65 ''high'' l]\<rparr>"
  unfolding get_compatibility_for_archetype_def Let_def a archetypes_def
  by (simp add: bind_err_def for_archetype_steps [OF l] py_sorted_reverse_def compat_item_fields)

lemma for_archetype_spark:
  assumes a: "lower a = ''spark''" and l: "l \<in> set supported_languages"
  shows "get_compatibility_for_archetype a l =
     Inr \<lparr>archetype = ''spark'',
          compatibilities =
            [compat_item ''anchor'' ''spark_anchor'' 90 ''harmonious'' l,
             compat_item ''driver'' ''spark_driver'' 85 ''very_high'' l,
             compat_item ''spark'' ''spark_spark'' 75 ''explosive'' l,
             compat_item ''analyst'' ''spark_analyst'' 60 ''contrasting'' l]\<rparr>"
  unfolding get_compatibility_for_archetype_def Let_def a archetypes_def
  by (simp add: bind_err_def for_archetype_steps [OF l] py_sorted_reverse_def compat_item_fields)

lemma for_archetype_anchor:
  assumes a: "lower a = ''anchor''" and l: "l \<in> set supported_languages"
  shows "get_compatibility_for_archetype a l =
     Inr \<lparr>archetype = ''anchor'',
          compatibilities =
            [compat_item ''spark'' ''anchor_spark'' 90 ''harmonious'' l,
             compat_item ''anchor'' ''anchor_anchor'' 80 ''peaceful'' l,
             compat_item ''driver'' ''anchor_driver'' 75 ''balanced'' l,
             compat_item ''analyst'' ''anchor_analyst'' 70 ''thoughtful'' l]\<rparr>"
  unfolding get_compatibility_for_archetype_def Let_def a archetypes_def
  by (simp add: bind_err_def for_archetype_steps [OF l] py_sorted_reverse_def compat_item_fields)

lemma for_archetype_analyst:
  assumes a: "lower a = ''analyst''" and l: "l \<in> set supported_languages"
  shows "get_compatibility_for_archetype a l =
     Inr \<lparr>archetype = ''analyst'',
          compatibilities =
            [compat_item ''analyst'' ''analyst_analyst'' 75 ''intellectual'' l,
             compat_item ''driver'' ''analyst_driver'' 70 ''focused'' l,
             compat_item ''anchor'' ''analyst_anchor'' 70 ''thoughtful'' l,
             compat_item ''spark'' ''analyst_spark'' 60 ''contrasting'' l]\<rparr>"
  unfolding get_compatibility_for_archetype_def Let_def a archetypes_def
  by (simp add: bind_err_def for_archetype_steps [OF l] py_sorted_reverse_def compat_item_fields)

lemma item_agrees:
  assumes a: "lower a = x" and l: "l \<in> set supported_languages"
    and m: "map_of COMPATIBILITY_MATRIX (x @ ''_'' @ o_arch) = Some (entry k s e)"
    and o: "lower o_arch = o_arch"
  shows "agrees_with_lookup a l (compat_item o_arch k s e l)"
proof -
  have "map_of COMPATIBILITY_MATRIX (lower a @ ''_'' @ lower o_arch) = Some (entry k s e)"
    by (simp only: a o m)
  from pair_found [OF this l] show ?thesis
    by (simp add: agrees_with_lookup_def compat_item_fields pair_view_fields)
qed

lemma ranking_properties:
  assumes r: "get_compatibility_for_archetype a l =
      Inr \<lparr>archetype = x, compatibilities = [c1, c2, c3, c4]\<rparr>"
    and x: "lower a = x"
    and names: "mset (map with_archetype_of [c1, c2, c3, c4]) = mset archetypes"
    and agree: "agrees_with_lookup a l c1" "agrees_with_lookup a l c2"
      "agrees_with_lookup a l c3" "agrees_with_lookup a l c4"
    and ordered: "sorted_wrt entry_before [c1, c2, c3, c4]"
  shows "\<exists>r. get_compatibility_for_archetype a l = Inr r \<and>
       archetype r = lower a \<and>
       mset (map with_archetype_of (compatibilities r)) = mset archetypes \<and>
       (\<forall>c\<in>set (compatibilities r). agrees_with_lookup a l c) \<and>
       sorted_wrt entry_before (compatibilities r)"
  unfolding r using x names agree ordered by simp

lemma entry_before_items:
  "entry_before (compat_item o1 k1 s1 e1 l) (compat_item o2 k2 s2 e2 l) =
     (s2 < s1 \<or> (s1 = s2 \<and> archetype_position o1 < archetype_position o2))"
  by (simp add: entry_before_def compat_item_fields)

lemma ranking_driver:
  assumes a: "lower a = ''driver''" and l: "l \<in> set supported_languages"
  shows "\<exists>r. get_compatibility_for_archetype a l = Inr r \<and>
       archetype r = lower a \<and>
       mset (map with_archetype_of (compatibilities r)) = mset archetypes \<and>
       (\<forall>c\<in>set (compatibilities r). agrees_with_lookup a l c) \<and>
       sorted_wrt entry_before (compatibilities r)"
proof (rule ranking_properties [OF for_archetype_driver [OF a l] a])
  show "mset (map with_archetype_of [compat_item ''spark'' ''driver_spark'' 85 ''very_high'' l,
      compat_item ''anchor'' ''driver_anchor'' 75 ''balanced'' l,
      compat_item ''analyst'' ''driver_analyst'' 70 ''focused'' l,
      compat_item ''driver'' ''driver_driver'' 65 ''high'' l]) = mset archetypes"
    by (simp add: compat_item_fields archetypes_def)
  show "agrees_with_lookup a l (compat_item ''spark'' ''driver_spark'' 85 ''very_high'' l)"
    by (rule item_agrees [OF a l]) (simp_all add: matrix_lookup lower_archetype_names)
  show "agrees_with_lookup a l (compat_item ''anchor'' ''driver_anchor'' 75 ''balanced'' l)"
    by (rule item_agrees [OF a l]) (simp_all add: matrix_lookup lower_archetype_names)
  show "agrees_with_lookup a l (compat_item ''analyst'' ''driver_analyst'' 70 ''focused'' l)"
    by (rule item_agrees [OF a l]) (simp_all add: matrix_lookup lower_archetype_names)
  show "agrees_with_lookup a l (compat_item ''driver'' ''driver_driver'' 65 ''high'' l)"
    by (rule item_agrees [OF a l]) (simp_all add: matrix_lookup lower_archetype_names)
  show "sorted_wrt entry_before [compat_item ''spark'' ''driver_spark'' 85 ''very_high'' l,
      compat_item ''anchor'' ''driver_anchor'' 75 ''balanced'' l,
      compat_item ''analyst'' ''driver_analyst'' 70 ''focused'' l,
      compat_item ''driver'' ''driver_driver'' 65 ''high'' l]"
    by (simp add: entry_before_items archetype_positions)
qed

lemma ranking_spark:
  assumes a: "lower a = ''spark''" and l: "l \<in> set supported_languages"
  shows "\<exists>r. get_compatibility_for_archetype a l = Inr r \<and>
       archetype r = lower a \<and>
       mset (map with_archetype_of (compatibilities r)) = mset archetypes \<and>
       (\<forall>c\<in>set (compatibilities r). agrees_with_lookup a l c) \<and>
       sorted_wrt entry_before (compatibilities r)"
proof (rule ranking_properties [OF for_archetype_spark [OF a l] a])
  show "mset (map with_archetype_of [compat_item ''anchor'' ''spark_anchor'' 90 ''harmonious'' l,
      compat_item ''driver'' ''spark_driver'' 85 ''very_high'' l,
      compat_item ''spark'' ''spark_spark'' 75 ''explosive'' l,
      compat_item ''analyst'' ''spark_analyst'' 60 ''contrasting'' l]) = mset archetypes"
    by (simp add: compat_item_fields archetypes_def)
  show "agrees_with_lookup a l (compat_item ''anchor'' ''spark_anchor'' 90 ''harmonious'' l)"
    by (rule item_agrees [OF a l]) (simp_all add: matrix_lookup lower_archetype_names)
  show "agrees_with_lookup a l (compat_item ''driver'' ''spark_driver'' 85 ''very_high'' l)"
    by (rule item_agrees [OF a l]) (simp_all add: matrix_lookup lower_archetype_names)
  show "agrees_with_lookup a l (compat_item ''spark'' ''spark_spark'' 75 ''explosive'' l)"
    by (rule item_agrees [OF a l]) (simp_all add: matrix_lookup lower_archetype_names)
  show "agrees_with_lookup a l (compat_item ''analyst'' ''spark_analyst'' 60 ''contrasting'' l)"
    by (rule item_agrees [OF a l]) (simp_all add: matrix_lookup lower_archetype_names)
  show "sorted_wrt entry_before [compat_item ''anchor'' ''spark_anchor'' 90 ''harmonious'' l,
      compat_item ''driver'' ''spark_driver'' 85 ''very_high'' l,
      compat_item ''spark'' ''spark_spark'' 75 ''explosive'' l,
      compat_item ''analyst'' ''spark_analyst'' 60 ''contrasting'' l]"
    by (simp add: entry_before_items archetype_positions)
qed

lemma ranking_anchor:
  assumes a: "lower a = ''anchor''" and l: "l \<in> set supported_languages"
  shows "\<exists>r. get_compatibility_for_archetype a l = Inr r \<and>
       archetype r = lower a \<and>
       mset (map with_archetype_of (compatibilities r)) = mset archetypes \<and>
       (\<forall>c\<in>set (compatibilities r). agrees_with_lookup a l c) \<and>
       sorted_wrt entry_before (compatibilities r)"
proof (rule ranking_properties [OF for_archetype_anchor [OF a l] a])
  show "mset (map with_archetype_of [compat_item ''spark'' ''anchor_spark'' 90 ''harmonious'' l,
      compat_item ''anchor'' ''anchor_anchor'' 80 ''peaceful'' l,
      compat_item ''driver'' ''anchor_driver'' 75 ''balanced'' l,
      compat_item ''analyst'' ''anchor_analyst'' 70 ''thoughtful'' l]) = mset archetypes"
    by (simp add: compat_item_fields archetypes_def)
  show "agrees_with_lookup a l (compat_item ''spark'' ''anchor_spark'' 90 ''harmonious'' l)"
    by (rule item_agrees [OF a l]) (simp_all add: matrix_lookup lower_archetype_names)
  show "agrees_with_lookup a l (compat_item ''anchor'' ''anchor_anchor'' 80 ''peaceful'' l)"
    by (rule item_agrees [OF a l]) (simp_all add: matrix_lookup lower_archetype_names)
  show "agrees_with_lookup a l (compat_item ''driver'' ''anchor_driver'' 75 ''balanced'' l)"
    by (rule item_agrees [OF a l]) (simp_all add: matrix_lookup lower_archetype_names)
  show "agrees_with_lookup a l (compat_item ''analyst'' ''anchor_analyst'' 70 ''thoughtful'' l)"
    by (rule item_agrees [OF a l]) (simp_all add: matrix_lookup lower_archetype_names)
  show "sorted_wrt entry_before [compat_item ''spark'' ''anchor_spark'' 90 ''harmonious'' l,
      compat_item ''anchor'' ''anchor_anchor'' 80 ''peaceful'' l,
      compat_item ''driver'' ''anchor_driver'' 75 ''balanced'' l,
      compat_item ''analyst'' ''anchor_analyst'' 70 ''thoughtful'' l]"
    by (simp add: entry_before_items archetype_positions)
qed

lemma ranking_analyst:
  assumes a: "lower a = ''analyst''" and l: "l \<in> set supported_languages"
  shows "\<exists>r. get_compatibility_for_archetype a l = Inr r \<and>
       archetype r = lower a \<and>
       mset (map with_archetype_of (compatibilities r)) = mset archetypes \<and>
       (\<forall>c\<in>set (compatibilities r). agrees_with_lookup a l c) \<and>
       sorted_wrt entry_before (compatibilities r)"
proof (rule ranking_properties [OF for_archetype_analyst [OF a l] a])
  show "mset (map with_archetype_of [compat_item ''analyst'' ''analyst_analyst'' 75 ''intellectual'' l,
      compat_item ''driver'' ''analyst_driver'' 70 ''focused'' l,
      compat_item ''anchor'' ''analyst_anchor'' 70 ''thoughtful'' l,
      compat_item ''spark'' ''analyst_spark'' 60 ''contrasting'' l]) = mset archetypes"
    by (simp add: compat_item_fields archetypes_def)
  show "agrees_with_lookup a l (compat_item ''analyst'' ''analyst_analyst'' 75 ''intellectual'' l)"
    by (rule item_agrees [OF a l]) (simp_all add: matrix_lookup lower_archetype_names)
  show "agrees_with_lookup a l (compat_item ''driver'' ''analyst_driver'' 70 ''focused'' l)"
    by (rule item_agrees [OF a l]) (simp_all add: matrix_lookup lower_archetype_names)
  show "agrees_with_lookup a l (compat_item ''anchor'' ''analyst_anchor'' 70 ''thoughtful'' l)"
    by (rule item_agrees [OF a l]) (simp_all add: matrix_lookup lower_archetype_names)
  show "agrees_with_lookup a l (compat_item ''spark'' ''analyst_spark'' 60 ''contrasting'' l)"
    by (rule item_agrees [OF a l]) (simp_all add: matrix_lookup lower_archetype_names)
  show "sorted_wrt entry_before [compat_item ''analyst'' ''analyst_analyst'' 75 ''intellectual'' l,
      compat_item ''driver'' ''analyst_driver'' 70 ''focused'' l,
      compat_item ''anchor'' ''analyst_anchor'' 70 ''thoughtful'' l,
      compat_item ''spark'' ''analyst_spark'' 60 ''contrasting'' l]"
    by (simp add: entry_before_items archetype_positions)
qed

text \<open>
  C9. For a name whose lowercased form is an archetype and a supported language, the
  ranking has exactly one entry for each of the four archetypes, the archetype itself
  included; each entry carries the compatibility score of the pair lookup of the two
  archetypes; and the entries are in descending order of score, equal scores in the
  fixed order driver, spark, anchor, analyst.
\<close>

theorem C9_ranking_sorted_and_complete:
  assumes "lower a \<in> set archetypes" "l \<in> set supported_languages"
  shows "\<exists>r. get_compatibility_for_archetype a l = Inr r \<and>
       archetype r = lower a \<and>
       mset (map with_archetype_of (compatibilities r)) = mset archetypes \<and>
       (\<forall>c\<in>set (compatibilities r). agrees_with_lookup a l c) \<and>
       sorted_wrt entry_before (compatibilities r)"
proof -
  from assms(1) have "lower a = ''driver'' \<or> lower a = ''spark'' \<or> lower a = ''anchor'' \<or>
      lower a = ''analyst''"
    by (simp add: archetypes_def)
  then show ?thesis
    using ranking_driver [OF _ assms(2)] ranking_spark [OF _ assms(2)]
      ranking_anchor [OF _ assms(2)] ranking_analyst [OF _ assms(2)]
    by blast
qed

theorem C9_ranking_witness:
  "lower ''Analyst'' \<in> set archetypes \<and> ''en'' \<in> set supported_languages \<and>
   (\<exists>r. get_compatibility_for_archetype ''Analyst'' ''en'' = Inr r \<and>
      map with_archetype_of (compatibilities r) = [''analyst'', ''driver'', ''anchor'', ''spark''] \<and>
      map compatibility_score_of (compatibilities r) = [75, 70, 70, 60] \<and>
      agrees_with_lookup ''Analyst'' ''en'' (hd (compatibilities r)) \<and>
      sorted_wrt entry_before (compatibilities r))"
proof -
  have h: "lower ''Analyst'' \<in> set archetypes"
    by (simp add: lower_examples archetypes_def)
  have l: "''en'' \<in> set supported_languages" by (simp add: supported_languages_def)
  from C9_ranking_sorted_and_complete [OF h l]
  obtain r where r: "get_compatibility_for_archetype ''Analyst'' ''en'' = Inr r"
    and ag: "\<forall>c\<in>set (compatibilities r). agrees_with_lookup ''Analyst'' ''en'' c"
    and so: "sorted_wrt entry_before (compatibilities r)"
    by blast
  have cs: "compatibilities r =
      [compat_item ''analyst'' ''analyst_analyst'' 75 ''intellectual'' ''en'',
       compat_item ''driver'' ''analyst_driver'' 70 ''focused'' ''en'',
       compat_item ''anchor'' ''analyst_anchor'' 70 ''thoughtful'' ''en'',
       compat_item ''spark'' ''analyst_spark'' 60 ''contrasting'' ''en'']"
    using r for_archetype_analyst [OF lower_examples(1) l] by auto
  have "agrees_with_lookup ''Analyst'' ''en'' (hd (compatibilities r))"
    using ag by (simp add: cs)
  with h l r so show ?thesis by (simp add: cs compat_item_fields)
qed

end
